theory Spec2Isabelle
  imports
    Complex_Main
    "HOL-Library.Log_Nat"
    "HOL-Library.Char_ord"
    "HOL-Library.List_Lexorder"
    "HOL-Library.Product_Lexorder"
    "HOL-Library.Option_ord"
begin

section \<open>The relational store (backend/database/init.js)\<close>

text \<open>
  The backend keeps its state in one SQLite database.  Each table a statement of the
  modelled code touches is a list of rows, in insertion order.  A statement either
  succeeds or hands an error to its callback; the callback then rejects the promise.
  To keep every such branch in the model, the database carries the number of statements
  issued so far (\<open>tick\<close>) and the list of statement numbers that fail (\<open>faults\<close>);
  a failing statement changes no table.

  Idealisations: the integer-valued JavaScript numbers (scores, points, times) are
  unbounded integers; the completion percentage is the real number its binary64 value
  denotes, and the arithmetic on it rounds as binary64 does (section on the progress
  route); a calendar date (\<open>YYYY-MM-DD\<close>) is its day number; the surrogate \<open>id\<close>
  columns and the timestamps that no modelled function reads are left out; the request
  has already passed \<open>verifyToken\<close>, so the user id is a number.
\<close>

datatype error = StoreError

type_synonym date = int

record progress_row =
  sp_student_id :: nat
  sp_subject :: string
  sp_topic :: string
  sp_completion_percentage :: real
  sp_score :: int
  sp_time_spent :: int
  sp_attempts :: int

record points_row =
  up_user_id :: nat
  up_total_points :: int
  up_current_level :: int
  up_subject_points :: "string \<rightharpoonup> int"
  up_daily_streak :: int
  up_last_activity_date :: "date option"

record achievement =
  a_id :: nat
  a_name :: string
  a_category :: "string option"
  a_points_required :: int

record grant =
  ua_user_id :: nat
  ua_achievement_id :: nat

record game_score =
  gs_user_id :: nat
  gs_game_name :: string
  gs_subject :: string
  gs_score :: int
  gs_level_completed :: int
  gs_time_taken :: int
  gs_points_earned :: int

record db =
  student_progress :: "progress_row list"
  user_points :: "points_row list"
  achievements :: "achievement list"
  user_achievements :: "grant list"
  game_scores :: "game_score list"
  faults :: "nat list"
  tick :: nat

definition failing :: "db \<Rightarrow> bool" where
  "failing d = (tick d \<in> set (faults d))"

definition issued :: "db \<Rightarrow> db" where
  "issued d = d\<lparr>tick := Suc (tick d)\<rparr>"

definition subjects :: "string list" where
  "subjects = [''physics'', ''chemistry'', ''math'', ''biology'']"

section \<open>Game score recorder (backend/routes/games.js)\<close>

record score_body =
  b_score :: int
  b_level_completed :: "int option"
  b_time_taken :: "int option"

record score_reply =
  r_score :: int
  r_pointsEarned :: int
  r_isNewRecord :: bool
  r_bestScore :: "int option"
  r_totalPlays :: nat

datatype score_response =
    ScoreValidationFailed
  | ScoreInvalidSubject
  | ScoreFailed
  | ScoreSubmitted score_reply

text \<open>The chain of express-validator checks in front of the handler.\<close>

definition score_body_valid :: "score_body \<Rightarrow> bool" where
  "score_body_valid b =
     (0 \<le> b_score b \<and> b_score b \<le> 1000
      \<and> (case b_level_completed b of None \<Rightarrow> True | Some l \<Rightarrow> 1 \<le> l \<and> l \<le> 10)
      \<and> (case b_time_taken b of None \<Rightarrow> True | Some t \<Rightarrow> 1 \<le> t))"

text \<open>
  The point formula of the handler: three independent \<open>if\<close> statements after the base
  points, none of them an \<open>else\<close> branch of another.
\<close>

definition calc_points :: "int \<Rightarrow> int \<Rightarrow> int" where
  "calc_points score time_taken =
     (let p0 = score div 10;
          p1 = (if score \<ge> 90 then p0 + 20 else p0);
          p2 = (if score \<ge> 70 then p1 + 10 else p1);
          p3 = (if time_taken > 0 \<and> time_taken < 300 then p2 + 5 else p2)
      in p3)"

definition saveGameScore ::
  "db \<Rightarrow> nat \<Rightarrow> string \<Rightarrow> string \<Rightarrow> int \<Rightarrow> int \<Rightarrow> int \<Rightarrow> int \<Rightarrow> (error + unit) \<times> db" where
  "saveGameScore d userId gameName subject score levelCompleted timeTaken pointsEarned =
     (if failing d then (Inl StoreError, issued d)
      else (Inr (),
            issued (d\<lparr>game_scores := game_scores d @
              [\<lparr>gs_user_id = userId, gs_game_name = gameName, gs_subject = subject,
                gs_score = score, gs_level_completed = levelCompleted,
                gs_time_taken = timeTaken, gs_points_earned = pointsEarned\<rparr>]\<rparr>)))"

definition getUserGameScores :: "db \<Rightarrow> nat \<Rightarrow> string \<Rightarrow> (error + game_score list) \<times> db" where
  "getUserGameScores d userId gameName =
     (if failing d then (Inl StoreError, issued d)
      else (Inr (filter (\<lambda>g. gs_user_id g = userId \<and> gs_game_name g = gameName)
                  (game_scores d)),
            issued d))"

text \<open>\<open>Math.max(...xs)\<close>; \<open>None\<close> stands for the \<open>-Infinity\<close> of the empty call.\<close>

fun js_max :: "int list \<Rightarrow> int option" where
  "js_max [] = None"
| "js_max (x # xs) = (case js_max xs of None \<Rightarrow> Some x | Some m \<Rightarrow> Some (max x m))"

text \<open>
  \<open>POST /:subject/:gameId/score\<close>.  The handler saves the attempt and reads the
  student's attempts back; it issues no other statement.
\<close>

definition submit_score :: "db \<Rightarrow> nat \<Rightarrow> string \<Rightarrow> string \<Rightarrow> score_body \<Rightarrow> score_response \<times> db" where
  "submit_score d userId subject gameId body =
     (if \<not> score_body_valid body then (ScoreValidationFailed, d)
      else
        let score = b_score body;
            level_completed = (case b_level_completed body of None \<Rightarrow> 1 | Some l \<Rightarrow> l);
            time_taken = (case b_time_taken body of None \<Rightarrow> 0 | Some t \<Rightarrow> t)
        in if subject \<notin> set subjects then (ScoreInvalidSubject, d)
           else
             let pointsEarned = calc_points score time_taken
             in case saveGameScore d userId gameId subject score level_completed time_taken
                       pointsEarned of
                  (Inl e, d1) \<Rightarrow> (ScoreFailed, d1)
                | (Inr u, d1) \<Rightarrow>
                    (case getUserGameScores d1 userId gameId of
                       (Inl e, d2) \<Rightarrow> (ScoreFailed, d2)
                     | (Inr userScores, d2) \<Rightarrow>
                         let bestScore = js_max (map gs_score userScores);
                             isNewRecord = (Some score = bestScore)
                         in (ScoreSubmitted
                               \<lparr>r_score = score, r_pointsEarned = pointsEarned,
                                r_isNewRecord = isNewRecord, r_bestScore = bestScore,
                                r_totalPlays = length userScores\<rparr>, d2)))"

section \<open>Points and levelling engine (models/User.js, routes/students.js)\<close>

text \<open>
  \<open>User.initializeUserPoints\<close>: \<open>INSERT OR IGNORE\<close> into \<open>user_points\<close>, whose
  \<open>UNIQUE(user_id)\<close> constraint makes the insert a no-op when the student already has
  a row.  The new row has no points, level 1, streak 0 and today's date (\<open>date('now')\<close>)
  as its last activity date.
\<close>

definition find_points :: "db \<Rightarrow> nat \<Rightarrow> points_row option" where
  "find_points d userId = find (\<lambda>r. up_user_id r = userId) (user_points d)"

definition fresh_points :: "date \<Rightarrow> nat \<Rightarrow> points_row" where
  "fresh_points today userId =
     \<lparr>up_user_id = userId, up_total_points = 0, up_current_level = 1,
      up_subject_points = Map.empty, up_daily_streak = 0,
      up_last_activity_date = Some today\<rparr>"

definition initializeUserPoints :: "date \<Rightarrow> db \<Rightarrow> nat \<Rightarrow> (error + unit) \<times> db" where
  "initializeUserPoints today d userId =
     (if failing d then (Inl StoreError, issued d)
      else (Inr (),
            issued (case find_points d userId of
                      Some r \<Rightarrow> d
                    | None \<Rightarrow> d\<lparr>user_points := user_points d @ [fresh_points today userId]\<rparr>)))"

record points_result =
  pr_total_points :: int
  pr_current_level :: int
  pr_subject_points :: "string \<rightharpoonup> int"
  pr_daily_streak :: int

text \<open>
  The streak rule of \<open>updateUserPoints\<close>: the stored date is compared with the
  string \<open>today\<close>, and only when they differ with the string \<open>yesterdayStr\<close>.
  \<open>today\<close> is the UTC date of the clock.  \<open>yesterdayStr\<close> is the UTC date of the
  instant that \<open>setDate(getDate() - 1)\<close> yields, which steps one day back in the
  server's local time zone: it is the day before \<open>today\<close> when the server runs in
  UTC, and can be another day around a change of the local clock.  Both dates are
  therefore parameters of the model, and nothing relates them.
\<close>

definition new_streak :: "date \<Rightarrow> date \<Rightarrow> date option \<Rightarrow> int \<Rightarrow> int" where
  "new_streak today yesterday lastActivity daily_streak =
     (if lastActivity \<noteq> Some today
      then (if lastActivity = Some yesterday then daily_streak + 1 else 1)
      else daily_streak)"

text \<open>
  The body of \<open>updateUserPoints\<close> for a student whose row \<open>currentPoints\<close> has been
  read: the new total, the level computed from it, the subject breakdown, the streak,
  and the \<open>UPDATE\<close> that writes them together with today's date.
\<close>

definition write_points ::
  "date \<Rightarrow> date \<Rightarrow> db \<Rightarrow> nat \<Rightarrow> int \<Rightarrow> string \<Rightarrow> points_row \<Rightarrow> (error + points_result) \<times> db" where
  "write_points today yesterday d userId pointsToAdd subject currentPoints =
     (let newTotalPoints = up_total_points currentPoints + pointsToAdd;
          newLevel = newTotalPoints div 100 + 1;
          subjectPoints = (up_subject_points currentPoints)
            (subject \<mapsto>
               (case up_subject_points currentPoints subject of
                  None \<Rightarrow> 0 | Some p \<Rightarrow> p) + pointsToAdd);
          newStreak = new_streak today yesterday (up_last_activity_date currentPoints)
                        (up_daily_streak currentPoints)
      in if failing d then (Inl StoreError, issued d)
         else (Inr \<lparr>pr_total_points = newTotalPoints, pr_current_level = newLevel,
                    pr_subject_points = subjectPoints, pr_daily_streak = newStreak\<rparr>,
               issued (d\<lparr>user_points :=
                 map (\<lambda>r. if up_user_id r = userId
                           then r\<lparr>up_total_points := newTotalPoints,
                                  up_current_level := newLevel,
                                  up_subject_points := subjectPoints,
                                  up_daily_streak := newStreak,
                                  up_last_activity_date := Some today\<rparr>
                           else r)
                     (user_points d)\<rparr>)))"

text \<open>
  \<open>updateUserPoints\<close> reads the student's row; without one it initialises the account
  and calls itself again.
\<close>

function updateUserPoints ::
  "date \<Rightarrow> date \<Rightarrow> db \<Rightarrow> nat \<Rightarrow> int \<Rightarrow> string \<Rightarrow> (error + points_result) \<times> db" where
  "updateUserPoints today yesterday d userId pointsToAdd subject =
     (if failing d then (Inl StoreError, issued d)
      else
        case find_points d userId of
          None \<Rightarrow>
            (case initializeUserPoints today (issued d) userId of
               (Inl e, d1) \<Rightarrow> (Inl e, d1)
             | (Inr u, d1) \<Rightarrow> updateUserPoints today yesterday d1 userId pointsToAdd subject)
        | Some currentPoints \<Rightarrow>
            write_points today yesterday (issued d) userId pointsToAdd subject currentPoints)"
  by pat_completeness auto

text \<open>The invariant of a points account.\<close>

definition level_ok :: "points_row \<Rightarrow> bool" where
  "level_ok r = (up_current_level r = up_total_points r div 100 + 1)"

section \<open>Progress tracker (models/Progress.js)\<close>

record progress_result =
  pg_created :: bool
  pg_updated :: bool
  pg_completion_percentage :: real
  pg_score :: int
  pg_attempts :: int

definition same_topic :: "nat \<Rightarrow> string \<Rightarrow> string \<Rightarrow> progress_row \<Rightarrow> bool" where
  "same_topic studentId subject topic r =
     (sp_student_id r = studentId \<and> sp_subject r = subject \<and> sp_topic r = topic)"

definition find_progress :: "db \<Rightarrow> nat \<Rightarrow> string \<Rightarrow> string \<Rightarrow> progress_row option" where
  "find_progress d studentId subject topic =
     find (same_topic studentId subject topic) (student_progress d)"

text \<open>
  \<open>Progress.updateProgress\<close>: a \<open>SELECT\<close> for the row of (student, subject, topic),
  then either an \<open>UPDATE\<close> of every row with that key or an \<open>INSERT\<close> of a new row
  with one attempt.
\<close>

definition updateProgress ::
  "db \<Rightarrow> nat \<Rightarrow> string \<Rightarrow> string \<Rightarrow> real \<Rightarrow> int \<Rightarrow> int \<Rightarrow> (error + progress_result) \<times> db" where
  "updateProgress d studentId subject topic completionPercentage score timeSpent =
     (if failing d then (Inl StoreError, issued d)
      else
        let d1 = issued d
        in case find_progress d studentId subject topic of
             Some existingProgress \<Rightarrow>
               let newAttempts = sp_attempts existingProgress + 1;
                   newTimeSpent = sp_time_spent existingProgress + timeSpent;
                   newScore = max (sp_score existingProgress) score;
                   newCompletion = max (sp_completion_percentage existingProgress)
                                     completionPercentage
               in if failing d1 then (Inl StoreError, issued d1)
                  else (Inr \<lparr>pg_created = False, pg_updated = True,
                             pg_completion_percentage = newCompletion, pg_score = newScore,
                             pg_attempts = newAttempts\<rparr>,
                        issued (d1\<lparr>student_progress :=
                          map (\<lambda>r. if same_topic studentId subject topic r
                                    then r\<lparr>sp_completion_percentage := newCompletion,
                                           sp_score := newScore,
                                           sp_time_spent := newTimeSpent,
                                           sp_attempts := newAttempts\<rparr>
                                    else r)
                              (student_progress d1)\<rparr>))
           | None \<Rightarrow>
               if failing d1 then (Inl StoreError, issued d1)
               else (Inr \<lparr>pg_created = True, pg_updated = False,
                          pg_completion_percentage = completionPercentage, pg_score = score,
                          pg_attempts = 1\<rparr>,
                     issued (d1\<lparr>student_progress := student_progress d1 @
                       [\<lparr>sp_student_id = studentId, sp_subject = subject, sp_topic = topic,
                         sp_completion_percentage = completionPercentage, sp_score = score,
                         sp_time_spent = timeSpent, sp_attempts = 1\<rparr>]\<rparr>)))"

section \<open>Achievement evaluator (models/Achievement.js)\<close>

text \<open>
  \<open>getAllAchievements\<close>: \<open>SELECT * FROM achievements ORDER BY category,
  points_required\<close>.  The categories are compared byte by byte (the default collation
  of a \<open>TEXT\<close> column), a missing category comes first, and the thresholds are compared
  as numbers; every row the code inserts has a number there.  Rows that agree on both
  columns keep their table order here.
\<close>

definition getAllAchievements :: "db \<Rightarrow> (error + achievement list) \<times> db" where
  "getAllAchievements d =
     (if failing d then (Inl StoreError, issued d)
      else (Inr (sort_key (\<lambda>a. (a_category a, a_points_required a)) (achievements d)),
            issued d))"

definition holds :: "db \<Rightarrow> nat \<Rightarrow> nat \<Rightarrow> bool" where
  "holds d userId achievementId =
     (\<lparr>ua_user_id = userId, ua_achievement_id = achievementId\<rparr> \<in> set (user_achievements d))"

text \<open>
  The join of the catalogue with the student's grants.  The evaluator only asks which
  ids occur in the result, so each achievement the student holds is listed once.
\<close>

definition getUserAchievements :: "db \<Rightarrow> nat \<Rightarrow> (error + achievement list) \<times> db" where
  "getUserAchievements d userId =
     (if failing d then (Inl StoreError, issued d)
      else (Inr (filter (\<lambda>a. holds d userId (a_id a)) (achievements d)), issued d))"

record subject_stats =
  ss_subject :: string
  ss_completed_topics :: nat

record user_stats =
  us_total_points :: int
  us_daily_streak :: int
  us_completed_activities :: nat
  us_high_score_count :: nat
  us_unique_games_played :: nat
  us_subjectProgress :: "subject_stats list"

text \<open>
  The four aggregate queries of \<open>getUserStats\<close>, computed on the tables.  Only the
  columns that \<open>checkAchievementCriteria\<close> reads are kept.
\<close>

definition stats_of :: "db \<Rightarrow> nat \<Rightarrow> user_stats" where
  "stats_of d userId =
     (let rows = filter (\<lambda>r. sp_student_id r = userId) (student_progress d);
          games = filter (\<lambda>g. gs_user_id g = userId) (game_scores d)
      in \<lparr>us_total_points =
            (case find_points d userId of None \<Rightarrow> 0 | Some p \<Rightarrow> up_total_points p),
          us_daily_streak =
            (case find_points d userId of None \<Rightarrow> 0 | Some p \<Rightarrow> up_daily_streak p),
          us_completed_activities =
            length (filter (\<lambda>r. sp_completion_percentage r \<ge> 100) rows),
          us_high_score_count = length (filter (\<lambda>r. sp_score r \<ge> 90) rows),
          us_unique_games_played = length (remdups (map gs_game_name games)),
          us_subjectProgress =
            map (\<lambda>s. \<lparr>ss_subject = s,
                       ss_completed_topics =
                         length (filter (\<lambda>r. sp_subject r = s
                                              \<and> sp_completion_percentage r \<ge> 100) rows)\<rparr>)
                (remdups (map sp_subject rows))\<rparr>)"

text \<open>
  \<open>getUserStats\<close> issues its four statements at once; the promise is rejected when
  any of them fails and resolved after the fourth answer otherwise.
\<close>

definition getUserStats :: "db \<Rightarrow> nat \<Rightarrow> (error + user_stats) \<times> db" where
  "getUserStats d userId =
     (let d1 = issued d; d2 = issued d1; d3 = issued d2; d4 = issued d3
      in if failing d \<or> failing d1 \<or> failing d2 \<or> failing d3
         then (Inl StoreError, d4)
         else (Inr (stats_of d userId), d4))"

definition completed_in :: "user_stats \<Rightarrow> string \<Rightarrow> nat \<Rightarrow> bool" where
  "completed_in userStats subject n =
     (case find (\<lambda>s. ss_subject s = subject) (us_subjectProgress userStats) of
        None \<Rightarrow> False
      | Some s \<Rightarrow> ss_completed_topics s \<ge> n)"

definition checkAchievementCriteria :: "achievement \<Rightarrow> user_stats \<Rightarrow> bool" where
  "checkAchievementCriteria achievement userStats =
     (if a_name achievement = ''First Steps'' then us_completed_activities userStats \<ge> 1
      else if a_name achievement = ''Game Master'' then us_unique_games_played userStats \<ge> 5
      else if a_name achievement = ''Physics Explorer''
        then completed_in userStats ''physics'' 10
      else if a_name achievement = ''Chemistry Wizard''
        then completed_in userStats ''chemistry'' 10
      else if a_name achievement = ''Math Genius'' then completed_in userStats ''math'' 20
      else if a_name achievement = ''Biology Expert''
        then completed_in userStats ''biology'' 10
      else if a_name achievement = ''Daily Learner'' then us_daily_streak userStats \<ge> 7
      else if a_name achievement = ''High Achiever'' then us_high_score_count userStats \<ge> 10
      else us_total_points userStats \<ge> a_points_required achievement)"

text \<open>
  \<open>awardAchievement\<close>: \<open>INSERT OR IGNORE\<close> into \<open>user_achievements\<close>, whose
  \<open>UNIQUE(user_id, achievement_id)\<close> constraint makes the insert a no-op for a pair that
  is already there.  The result is \<open>this.changes > 0\<close>.
\<close>

definition awardAchievement :: "db \<Rightarrow> nat \<Rightarrow> nat \<Rightarrow> (error + bool) \<times> db" where
  "awardAchievement d userId achievementId =
     (if failing d then (Inl StoreError, issued d)
      else if holds d userId achievementId then (Inr False, issued d)
      else (Inr True,
            issued (d\<lparr>user_achievements := user_achievements d @
              [\<lparr>ua_user_id = userId, ua_achievement_id = achievementId\<rparr>]\<rparr>)))"

text \<open>The \<open>for\<close> loop of \<open>checkAndAwardAchievements\<close> over the catalogue.\<close>

fun award_each ::
  "db \<Rightarrow> nat \<Rightarrow> nat list \<Rightarrow> user_stats \<Rightarrow> achievement list \<Rightarrow> achievement list
     \<Rightarrow> (error + achievement list) \<times> db" where
  "award_each d userId earnedIds userStats [] newAchievements = (Inr newAchievements, d)"
| "award_each d userId earnedIds userStats (achievement # rest) newAchievements =
     (if a_id achievement \<in> set earnedIds
      then award_each d userId earnedIds userStats rest newAchievements
      else if checkAchievementCriteria achievement userStats
      then (case awardAchievement d userId (a_id achievement) of
              (Inl e, d1) \<Rightarrow> (Inl e, d1)
            | (Inr c, d1) \<Rightarrow>
                award_each d1 userId earnedIds userStats rest (newAchievements @ [achievement]))
      else award_each d userId earnedIds userStats rest newAchievements)"

text \<open>
  The body of the \<open>try\<close> block, and the function with its \<open>catch\<close>.  The call of
  \<open>getDatabase\<close> in front of the \<open>try\<close> returns the open handle: the server accepts
  requests only after \<open>initDatabase\<close> has resolved.
\<close>

definition check_and_award :: "db \<Rightarrow> nat \<Rightarrow> (error + achievement list) \<times> db" where
  "check_and_award d userId =
     (case getUserAchievements d userId of
        (Inl e, d1) \<Rightarrow> (Inl e, d1)
      | (Inr earnedAchievements, d1) \<Rightarrow>
          (case getUserStats d1 userId of
             (Inl e, d2) \<Rightarrow> (Inl e, d2)
           | (Inr userStats, d2) \<Rightarrow>
               (case getAllAchievements d2 of
                  (Inl e, d3) \<Rightarrow> (Inl e, d3)
                | (Inr allAchievements, d3) \<Rightarrow>
                    award_each d3 userId (map a_id earnedAchievements) userStats
                      allAchievements [])))"

definition checkAndAwardAchievements :: "db \<Rightarrow> nat \<Rightarrow> achievement list \<times> db" where
  "checkAndAwardAchievements d userId =
     (case check_and_award d userId of
        (Inl e, d1) \<Rightarrow> ([], d1)
      | (Inr newAchievements, d1) \<Rightarrow> (newAchievements, d1))"

section \<open>The handler of the progress route (routes/students.js)\<close>

record progress_body =
  pb_subject :: string
  pb_topic :: string
  pb_completion_percentage :: real
  pb_score :: "int option"
  pb_time_spent :: "int option"

record progress_reply =
  rp_progress :: progress_result
  rp_pointsEarned :: int
  rp_newAchievements :: "achievement list"

text \<open>
  The answers of the route: 400 from the validation, 500 from the handler's \<open>catch\<close>,
  200 with the reply, 401 or 403 from the role check, and the 500 of the application's
  error middleware (server.js) for an exception that a middleware throws.
\<close>

datatype progress_response =
    ProgressValidationFailed
  | ProgressFailed
  | ProgressUpdated progress_reply
  | ProgressDenied nat
  | ProgressServerError

definition progress_body_valid :: "progress_body \<Rightarrow> bool" where
  "progress_body_valid b =
     (pb_subject b \<in> set subjects
      \<and> 1 \<le> length (pb_topic b) \<and> length (pb_topic b) \<le> 100
      \<and> 0 \<le> pb_completion_percentage b \<and> pb_completion_percentage b \<le> 100
      \<and> (case pb_score b of None \<Rightarrow> True | Some s \<Rightarrow> 0 \<le> s \<and> s \<le> 100)
      \<and> (case pb_time_spent b of None \<Rightarrow> True | Some t \<Rightarrow> 0 \<le> t))"

text \<open>
  The completion percentage is a JavaScript number, and \<open>-\<close> and \<open>/\<close> on it are the
  binary64 operations: the exact result, rounded to the nearest value with a 53-bit
  significand, ties to the even one.  \<open>exponent x\<close> is the \<open>e\<close> with
  \<open>2^e \<le> |x| < 2^(e+1)\<close>; the values of the binade of \<open>x\<close> are the multiples of
  \<open>2^(e-52)\<close>, and below \<open>2^(-1022)\<close> the multiples of \<open>2^(-1074)\<close>.  Overflow
  to \<open>Infinity\<close> is not modelled: the operands here are a validated percentage
  (between 0 and 100), 50 and 10.
\<close>

definition exponent :: "real \<Rightarrow> int" where
  "exponent x =
     (if 1 \<le> \<bar>x\<bar> then bitlen \<lfloor>\<bar>x\<bar>\<rfloor> - 1 else - bitlen (\<lceil>1 / \<bar>x\<bar>\<rceil> - 1))"

definition nearest_even :: "real \<Rightarrow> int" where
  "nearest_even y =
     (let n = \<lfloor>y\<rfloor>; r = y - of_int n
      in if r < 1 / 2 then n else if 1 / 2 < r then n + 1 else if even n then n else n + 1)"

definition round64 :: "real \<Rightarrow> real" where
  "round64 x =
     (if x = 0 then 0
      else (let q = 2 powi (max (exponent x) (- 1022) - 52)
            in of_int (nearest_even (x / q)) * q))"

definition js_sub :: "real \<Rightarrow> real \<Rightarrow> real" where
  "js_sub a b = round64 (a - b)"

definition js_div :: "real \<Rightarrow> real \<Rightarrow> real" where
  "js_div a b = round64 (a / b)"

text \<open>The points of a progress update, from the result of \<open>updateProgress\<close>.\<close>

definition progress_points :: "progress_result \<Rightarrow> real \<Rightarrow> int \<Rightarrow> int" where
  "progress_points progressResult completion_percentage score =
     (if pg_created progressResult
      then \<lfloor>js_div completion_percentage 10\<rfloor>
             + (if score \<ge> 80 then 20 else if score \<ge> 60 then 10 else 5)
      else if pg_updated progressResult
      then \<lfloor>js_div (js_sub completion_percentage 50) 10\<rfloor> * 2
      else 0)"

text \<open>
  The guarded call of the handler: \<open>if (pointsEarned > 0) await updateUserPoints(...)\<close>.
  The value the call resolves with is not used.
\<close>

definition credit_points ::
  "date \<Rightarrow> date \<Rightarrow> db \<Rightarrow> nat \<Rightarrow> int \<Rightarrow> string \<Rightarrow> (error + unit) \<times> db" where
  "credit_points today yesterday d studentId pointsEarned subject =
     (if pointsEarned > 0
      then (case updateUserPoints today yesterday d studentId pointsEarned subject of
              (Inl e, d1) \<Rightarrow> (Inl e, d1)
            | (Inr r, d1) \<Rightarrow> (Inr (), d1))
      else (Inr (), d))"

text \<open>
  The handler of \<open>POST /progress\<close> with the validators in front of it: the progress
  update, the points (credited only when positive), the achievement check, and the
  reply.  Any rejected promise ends in the handler's \<open>catch\<close> with status 500.
\<close>

definition progress_handler ::
  "date \<Rightarrow> date \<Rightarrow> db \<Rightarrow> nat \<Rightarrow> progress_body \<Rightarrow> progress_response \<times> db" where
  "progress_handler today yesterday d studentId body =
     (if \<not> progress_body_valid body then (ProgressValidationFailed, d)
      else
        (let subject = pb_subject body;
             topic = pb_topic body;
             completion_percentage = pb_completion_percentage body;
             score = (case pb_score body of None \<Rightarrow> 0 | Some s \<Rightarrow> s);
             time_spent = (case pb_time_spent body of None \<Rightarrow> 0 | Some t \<Rightarrow> t)
         in (case updateProgress d studentId subject topic completion_percentage score
                   time_spent of
               (Inl e, d1) \<Rightarrow> (ProgressFailed, d1)
             | (Inr progressResult, d1) \<Rightarrow>
                 (let pointsEarned =
                        progress_points progressResult completion_percentage score
                  in (case credit_points today yesterday d1 studentId pointsEarned subject of
                        (Inl e, d2) \<Rightarrow> (ProgressFailed, d2)
                      | (Inr u, d2) \<Rightarrow>
                          (case checkAndAwardAchievements d2 studentId of
                             (newAchievements, d3) \<Rightarrow>
                               (ProgressUpdated
                                  \<lparr>rp_progress = progressResult,
                                   rp_pointsEarned = pointsEarned,
                                   rp_newAchievements = newAchievements\<rparr>, d3)))))))"

section \<open>The role check and the route (middleware/auth.js, routes/students.js, server.js)\<close>

text \<open>
  \<open>requireRole(roles)\<close> builds the middleware that answers 401 without a user, 403
  for a user whose role is not among \<open>roles\<close>, and calls \<open>next\<close> otherwise.
  \<open>requireStudent\<close> is a method of the module's object that looks \<open>requireRole\<close> up
  on \<open>this\<close>: called on that object it is \<open>requireRole('student')\<close>, and called
  without it \<open>this.requireRole\<close> is not a function and the call throws.
\<close>

datatype js_error = TypeError

datatype receiver = AuthMiddleware | NoReceiver

datatype verdict = Next | Answered nat

definition requireRole :: "string list \<Rightarrow> string option \<Rightarrow> verdict" where
  "requireRole roles user_role =
     (case user_role of
        None \<Rightarrow> Answered 401
      | Some role \<Rightarrow> if role \<notin> set roles then Answered 403 else Next)"

definition requireStudent :: "receiver \<Rightarrow> string option \<Rightarrow> js_error + verdict" where
  "requireStudent this user_role =
     (case this of
        AuthMiddleware \<Rightarrow> Inr (requireRole [''student''] user_role)
      | NoReceiver \<Rightarrow> Inl TypeError)"

text \<open>
  The route \<open>POST /progress\<close> as routes/students.js registers it.  The file takes
  \<open>requireStudent\<close> out of the module's object
  (\<open>const { verifyToken, requireStudent } = require('../middleware/auth')\<close>) and puts
  it first in the route's middleware list, so the router calls it as a plain function,
  without the object.  The router catches what a middleware throws and hands it to the
  application's error middleware, which answers 500; the validators and the handler
  run only after a call of \<open>next\<close>.  \<open>role\<close> is the role of the user that
  \<open>verifyToken\<close> has put into the request.
\<close>

definition post_progress ::
  "date \<Rightarrow> date \<Rightarrow> db \<Rightarrow> nat \<Rightarrow> string \<Rightarrow> progress_body \<Rightarrow> progress_response \<times> db" where
  "post_progress today yesterday d studentId role body =
     (case requireStudent NoReceiver (Some role) of
        Inl e \<Rightarrow> (ProgressServerError, d)
      | Inr (Answered status) \<Rightarrow> (ProgressDenied status, d)
      | Inr Next \<Rightarrow> progress_handler today yesterday d studentId body)"

section \<open>Client: API client and offline queue (assets/js/api.js, assets/js/offline.js)\<close>

text \<open>
  The browser is the client's environment: \<open>navigator.onLine\<close>, the answers of
  \<open>fetch\<close>, and the IndexedDB object store \<open>offline_progress\<close> with its
  auto-incremented keys.  \<open>indexedDB\<close> is the browser's own interface: its methods
  \<open>add\<close> and \<open>getAll\<close> return a request object at once, the operation is carried
  out afterwards, and its result is delivered to the request's \<open>onsuccess\<close> handler.
  \<open>fetches\<close> records every call of \<open>fetch\<close>, so that "no request was sent" can be
  stated.  An \<open>async\<close> function runs until its next \<open>await\<close>; an invocation of
  \<open>syncOfflineData\<close> that waits there is a \<open>sweep\<close>, and \<open>sweeps\<close> holds the
  invocations that have started and not yet returned.
\<close>

record offline_item =
  oi_id :: nat
  oi_progressData :: progress_body
  oi_token :: "string option"

datatype fetch_result = Response_ok string | Response_status nat | Fetch_rejected

datatype client_error = AuthenticationRequired | RequestFailed nat | NetworkFailure

datatype reply = Body string | Fallback | SavedOffline

datatype sweep = Opening

record client =
  navigator_onLine :: bool
  isOnline :: bool
  authToken :: "string option"
  offline_progress :: "offline_item list"
  next_key :: nat
  fetches :: "(string \<times> progress_body) list"
  sweeps :: "sweep list"

text \<open>
  \<open>storeOfflineProgress\<close>: one \<open>add\<close> to the object store, carried out when the
  function has returned; an IndexedDB error (\<open>idb_ok\<close> false) is caught and logged.
\<close>

definition storeOfflineProgress :: "client \<Rightarrow> bool \<Rightarrow> progress_body \<Rightarrow> client" where
  "storeOfflineProgress c idb_ok progressData =
     (if idb_ok
      then c\<lparr>offline_progress := offline_progress c @
               [\<lparr>oi_id = next_key c, oi_progressData = progressData,
                 oi_token = authToken c\<rparr>],
             next_key := Suc (next_key c)\<rparr>
      else c)"

text \<open>
  \<open>request\<close> in two halves: the call of \<open>fetch\<close>, and what runs when the fetch has
  settled with \<open>answer\<close>.  A response that is not ok and a rejected fetch both end in
  the \<open>catch\<close> block, which returns the cached data (or \<open>null\<close>) instead of throwing
  when \<open>navigator.onLine\<close> is false at that moment.
\<close>

definition fetch_called :: "client \<Rightarrow> string \<Rightarrow> progress_body \<Rightarrow> client" where
  "fetch_called c endpoint data = c\<lparr>fetches := fetches c @ [(endpoint, data)]\<rparr>"

definition fetch_settled :: "client \<Rightarrow> fetch_result \<Rightarrow> (client_error + reply) \<times> client" where
  "fetch_settled c answer =
     (case answer of
        Response_ok body \<Rightarrow> (Inr (Body body), c)
      | Response_status status \<Rightarrow>
          (let c1 = (if status = 401 then c\<lparr>authToken := None\<rparr> else c);
               err = (if status = 401 then AuthenticationRequired else RequestFailed status)
           in if \<not> navigator_onLine c1 then (Inr Fallback, c1) else (Inl err, c1))
      | Fetch_rejected \<Rightarrow>
          if \<not> navigator_onLine c then (Inr Fallback, c) else (Inl NetworkFailure, c))"

definition post :: "client \<Rightarrow> fetch_result \<Rightarrow> string \<Rightarrow> progress_body \<Rightarrow> (client_error + reply) \<times> client" where
  "post c answer endpoint data = fetch_settled (fetch_called c endpoint data) answer"

text \<open>\<open>APIClient.updateProgress\<close>.\<close>

definition api_updateProgress ::
  "client \<Rightarrow> bool \<Rightarrow> fetch_result \<Rightarrow> progress_body \<Rightarrow> (client_error + reply) \<times> client" where
  "api_updateProgress c idb_ok answer progressData =
     (if \<not> navigator_onLine c
      then (Inr SavedOffline, storeOfflineProgress c idb_ok progressData)
      else post c answer ''/students/progress'' progressData)"

text \<open>
  \<open>syncOfflineData\<close> up to its first \<open>await\<close>: it returns at once when
  \<open>navigator.onLine\<close> is false and is a sweep in progress otherwise.
\<close>

definition syncOfflineData :: "client \<Rightarrow> client" where
  "syncOfflineData c =
     (if \<not> navigator_onLine c then c else c\<lparr>sweeps := sweeps c @ [Opening]\<rparr>)"

text \<open>
  A sweep resumes when \<open>openIndexedDB\<close> has settled (\<open>idb_ok\<close>: it resolved).  If
  it rejected, the sweep is in its outer \<open>catch\<close>.  Otherwise the code opens a
  transaction and evaluates \<open>await progressStore.getAll()\<close>: the value of
  \<open>getAll()\<close> is the request object, which is not a promise, so \<open>await\<close> yields
  that object and \<open>progressData\<close> is not the list of the queued items.
  \<open>for (const item of progressData)\<close> then throws, because a request object cannot
  be iterated, and the sweep is in its outer \<open>catch\<close> again, which logs the error.
  The body of the loop (\<open>post\<close>, then \<open>delete\<close>) is not reached for any item, nor is
  the second loop over the score queue.
\<close>

datatype sweep_end = OpenFailed | NotIterable

definition resume :: "client \<Rightarrow> sweep \<Rightarrow> bool \<Rightarrow> client \<times> sweep_end" where
  "resume c s idb_ok = (case s of Opening \<Rightarrow> if idb_ok then (c, NotIterable) else (c, OpenFailed))"

text \<open>\<open>OfflineManager\<close>: \<open>syncPendingData\<close>, \<open>handleOnline\<close>, \<open>handleOffline\<close>.\<close>

definition syncPendingData :: "client \<Rightarrow> client" where
  "syncPendingData c = (if \<not> isOnline c then c else syncOfflineData c)"

definition handleOnline :: "client \<Rightarrow> client" where
  "handleOnline c = syncPendingData (c\<lparr>isOnline := True\<rparr>)"

definition handleOffline :: "client \<Rightarrow> client" where
  "handleOffline c = c\<lparr>isOnline := False\<rparr>"

text \<open>
  What can happen to the page: the browser's \<open>online\<close> and \<open>offline\<close> events (both
  listeners of \<open>online\<close> run, the API client's and the offline manager's), the
  five-minute timer, an explicit call of \<open>syncOfflineData\<close>, and the resumption of the
  sweep at a position of \<open>sweeps\<close>, with the outcome of what it was waiting for:
  whether IndexedDB could be opened.  A resumed sweep runs to its end.
  \<open>window.apiClient\<close> exists from the moment the API client's script has run, so the
  test for it in \<open>syncPendingData\<close> passes.
\<close>

datatype event = Online | Offline | Timer | Sync | Resume nat bool

definition drop_nth :: "nat \<Rightarrow> 'a list \<Rightarrow> 'a list" where
  "drop_nth i xs = take i xs @ drop (Suc i) xs"

fun step :: "client \<Rightarrow> event \<Rightarrow> client" where
  "step c Online = handleOnline (syncOfflineData (c\<lparr>navigator_onLine := True\<rparr>))"
| "step c Offline = handleOffline (c\<lparr>navigator_onLine := False\<rparr>)"
| "step c Timer = (if isOnline c then syncPendingData c else c)"
| "step c Sync = syncOfflineData c"
| "step c (Resume i idb_ok) =
     (if i < length (sweeps c)
      then (case resume c (sweeps c ! i) idb_ok of
              (c1, ended) \<Rightarrow> c1\<lparr>sweeps := drop_nth i (sweeps c1)\<rparr>)
      else c)"

definition run :: "client \<Rightarrow> event list \<Rightarrow> client" where
  "run c events = foldl step c events"

section \<open>Example states\<close>

text \<open>The catalogue seeded by \<open>insertDefaultAchievements\<close>, and an otherwise empty store.\<close>

definition catalogue :: "achievement list" where
  "catalogue =
     [\<lparr>a_id = 1, a_name = ''First Steps'', a_category = Some ''progress'',
       a_points_required = 10\<rparr>,
      \<lparr>a_id = 2, a_name = ''Game Master'', a_category = Some ''gaming'',
       a_points_required = 100\<rparr>,
      \<lparr>a_id = 3, a_name = ''Physics Explorer'', a_category = Some ''physics'',
       a_points_required = 500\<rparr>,
      \<lparr>a_id = 4, a_name = ''Chemistry Wizard'', a_category = Some ''chemistry'',
       a_points_required = 500\<rparr>,
      \<lparr>a_id = 5, a_name = ''Math Genius'', a_category = Some ''math'',
       a_points_required = 300\<rparr>,
      \<lparr>a_id = 6, a_name = ''Biology Expert'', a_category = Some ''biology'',
       a_points_required = 500\<rparr>,
      \<lparr>a_id = 7, a_name = ''Daily Learner'', a_category = Some ''streak'',
       a_points_required = 50\<rparr>,
      \<lparr>a_id = 8, a_name = ''High Achiever'', a_category = Some ''performance'',
       a_points_required = 200\<rparr>]"

definition db0 :: db where
  "db0 = \<lparr>student_progress = [], user_points = [], achievements = catalogue,
          user_achievements = [], game_scores = [], faults = [], tick = 0\<rparr>"

text \<open>The store with one student, number 1, and the given points, streak and date.\<close>

definition db_student :: "int \<Rightarrow> int \<Rightarrow> date option \<Rightarrow> db" where
  "db_student points streak lastActivity =
     db0\<lparr>user_points :=
           [\<lparr>up_user_id = 1, up_total_points = points, up_current_level = points div 100 + 1,
             up_subject_points = Map.empty, up_daily_streak = streak,
             up_last_activity_date = lastActivity\<rparr>]\<rparr>"

definition body_95_120 :: score_body where
  "body_95_120 = \<lparr>b_score = 95, b_level_completed = None, b_time_taken = Some 120\<rparr>"

text \<open>The \<open>pointsEarned\<close> field of the reply to a score submission, if one was sent.\<close>

definition points_of :: "score_response \<Rightarrow> int option" where
  "points_of r = (case r of ScoreSubmitted x \<Rightarrow> Some (r_pointsEarned x) | _ \<Rightarrow> None)"

text \<open>Student 1 with 50 points and one earlier attempt at Algebra, and a repeat
  submission with a completion of 20 percent.\<close>

definition db_repeat :: db where
  "db_repeat =
     (db_student 50 1 (Some 20000))
       \<lparr>student_progress :=
          [\<lparr>sp_student_id = 1, sp_subject = ''math'', sp_topic = ''Algebra'',
            sp_completion_percentage = 60, sp_score = 70, sp_time_spent = 100,
            sp_attempts = 1\<rparr>]\<rparr>"

definition body_repeat_20 :: progress_body where
  "body_repeat_20 =
     \<lparr>pb_subject = ''math'', pb_topic = ''Algebra'', pb_completion_percentage = 20,
      pb_score = Some 30, pb_time_spent = Some 10\<rparr>"

text \<open>Student 1 with 50 points, a first submission that completes Algebra, and the
  stores in which statement number 6 or 10 fails: counted from the start of the request,
  these are a statistics query and the insert of the grant.\<close>

definition body_first_100 :: progress_body where
  "body_first_100 =
     \<lparr>pb_subject = ''math'', pb_topic = ''Algebra'', pb_completion_percentage = 100,
      pb_score = Some 90, pb_time_spent = Some 60\<rparr>"

definition db_faulty :: "nat \<Rightarrow> db" where
  "db_faulty n = (db_student 50 1 (Some 20000))\<lparr>faults := [n]\<rparr>"

text \<open>Student 1 with an account without points, after four different games, and the
  submission of a fifth game.\<close>

definition played :: "string \<Rightarrow> game_score" where
  "played g = \<lparr>gs_user_id = 1, gs_game_name = g, gs_subject = ''math'', gs_score = 50,
               gs_level_completed = 1, gs_time_taken = 400, gs_points_earned = 5\<rparr>"

definition db_games :: db where
  "db_games =
     (db_student 0 0 (Some 20000))
       \<lparr>game_scores := [played ''number-puzzles'', played ''geometry-visualizer'',
                        played ''algebra-adventure'', played ''projectile-motion'']\<rparr>"

text \<open>A page that is offline with an empty queue, and a progress update.\<close>

definition client0 :: client where
  "client0 = \<lparr>navigator_onLine = False, isOnline = False, authToken = Some ''token'',
              offline_progress = [], next_key = 1, fetches = [], sweeps = []\<rparr>"

definition body_client :: progress_body where
  "body_client =
     \<lparr>pb_subject = ''math'', pb_topic = ''Algebra'', pb_completion_percentage = 100,
      pb_score = Some 90, pb_time_spent = Some 60\<rparr>"

text \<open>A page that is online with one queued update.\<close>

definition client_queued :: client where
  "client_queued =
     \<lparr>navigator_onLine = True, isOnline = True, authToken = Some ''token'',
      offline_progress = [\<lparr>oi_id = 1, oi_progressData = body_client,
                           oi_token = Some ''token''\<rparr>],
      next_key = 2, fetches = [], sweeps = []\<rparr>"

section \<open>Statements and tables\<close>

lemma failing_tables [simp]:
  "failing (d\<lparr>student_progress := sp\<rparr>) = failing d"
  "failing (d\<lparr>user_points := up\<rparr>) = failing d"
  "failing (d\<lparr>user_achievements := ua\<rparr>) = failing d"
  "failing (d\<lparr>game_scores := gs\<rparr>) = failing d"
  by (simp_all add: failing_def)

lemma issued_tables [simp]:
  "student_progress (issued d) = student_progress d"
  "user_points (issued d) = user_points d"
  "achievements (issued d) = achievements d"
  "user_achievements (issued d) = user_achievements d"
  "game_scores (issued d) = game_scores d"
  "faults (issued d) = faults d"
  "tick (issued d) = Suc (tick d)"
  by (simp_all add: issued_def)

lemma issued_commute [simp]:
  "issued (d\<lparr>student_progress := sp\<rparr>) = (issued d)\<lparr>student_progress := sp\<rparr>"
  "issued (d\<lparr>user_points := up\<rparr>) = (issued d)\<lparr>user_points := up\<rparr>"
  "issued (d\<lparr>user_achievements := ua\<rparr>) = (issued d)\<lparr>user_achievements := ua\<rparr>"
  "issued (d\<lparr>game_scores := gs\<rparr>) = (issued d)\<lparr>game_scores := gs\<rparr>"
  by (simp_all add: issued_def)

section \<open>The recursion of \<open>updateUserPoints\<close> ends\<close>

lemma find_points_issued [simp]: "find_points (issued d) userId = find_points d userId"
  by (simp add: find_points_def)

lemma find_points_cong:
  "user_points d1 = user_points d \<Longrightarrow> find_points d1 userId = find_points d userId"
  by (simp add: find_points_def)

lemma initializeUserPoints_fst:
  "fst (initializeUserPoints today d userId) = (if failing d then Inl StoreError else Inr ())"
  by (simp add: initializeUserPoints_def)

lemma initializeUserPoints_points:
  "user_points (snd (initializeUserPoints today d userId)) =
     (if failing d then user_points d
      else case find_points d userId of
             Some r \<Rightarrow> user_points d
           | None \<Rightarrow> user_points d @ [fresh_points today userId])"
  by (simp add: initializeUserPoints_def split: option.split)

lemma find_points_fresh:
  assumes "user_points d1 = user_points d @ [fresh_points today userId]"
  shows "find_points d1 userId \<noteq> None"
proof -
  have m: "fresh_points today userId \<in> set (user_points d1)"
    by (simp add: assms)
  have u: "up_user_id (fresh_points today userId) = userId"
    by (simp add: fresh_points_def)
  show ?thesis
    unfolding find_points_def find_None_iff using m u by blast
qed

lemma initializeUserPoints_row:
  assumes "initializeUserPoints today d userId = (Inr u, d1)"
  shows "find_points d1 userId \<noteq> None"
proof -
  from assms have ok: "\<not> failing d"
    using initializeUserPoints_fst [of today d userId] by (simp split: if_splits)
  from assms have d1: "d1 = snd (initializeUserPoints today d userId)" by simp
  show ?thesis
  proof (cases "find_points d userId")
    case None
    with ok d1 have "user_points d1 = user_points d @ [fresh_points today userId]"
      by (simp add: initializeUserPoints_points)
    then show ?thesis by (rule find_points_fresh)
  next
    case (Some r)
    with ok d1 have "user_points d1 = user_points d"
      by (simp add: initializeUserPoints_points)
    then have "find_points d1 userId = find_points d userId" by (rule find_points_cong)
    with Some show ?thesis by simp
  qed
qed

lemma updateUserPoints_decreases:
  assumes "(Inr u, d1) = initializeUserPoints today (issued d) userId"
  shows "(if find_points d1 userId = None then 1 else 0) < (1::nat)"
proof -
  from assms have "find_points d1 userId \<noteq> None"
    by (rule initializeUserPoints_row [OF sym])
  then show ?thesis by simp
qed

termination updateUserPoints
  apply (relation "measure (\<lambda>(today, yesterday, d, userId, pointsToAdd, subject).
                           if find_points d userId = None then 1 else 0)")
   apply (rule wf_measure)
  apply (simp only: in_measure prod.case if_True refl)
  apply (erule updateUserPoints_decreases)
  done

declare updateUserPoints.simps [simp del]

section \<open>Points and levelling engine\<close>

lemma write_points_fst:
  "fst (write_points today yesterday d userId pointsToAdd subject cur) =
     (if failing d then Inl StoreError
      else Inr \<lparr>pr_total_points = up_total_points cur + pointsToAdd,
                pr_current_level = (up_total_points cur + pointsToAdd) div 100 + 1,
                pr_subject_points = (up_subject_points cur)
                  (subject \<mapsto> (case up_subject_points cur subject of
                                   None \<Rightarrow> 0 | Some p \<Rightarrow> p) + pointsToAdd),
                pr_daily_streak = new_streak today yesterday (up_last_activity_date cur)
                                    (up_daily_streak cur)\<rparr>)"
  by (simp add: write_points_def Let_def)

lemma write_points_points:
  "user_points (snd (write_points today yesterday d userId pointsToAdd subject cur)) =
     (if failing d then user_points d
      else map (\<lambda>r. if up_user_id r = userId
                     then r\<lparr>up_total_points := up_total_points cur + pointsToAdd,
                            up_current_level := (up_total_points cur + pointsToAdd) div 100 + 1,
                            up_subject_points := (up_subject_points cur)
                              (subject \<mapsto> (case up_subject_points cur subject of
                                               None \<Rightarrow> 0 | Some p \<Rightarrow> p) + pointsToAdd),
                            up_daily_streak := new_streak today yesterday (up_last_activity_date cur)
                                                 (up_daily_streak cur),
                            up_last_activity_date := Some today\<rparr>
                     else r)
               (user_points d))"
  by (simp add: write_points_def Let_def)

lemma write_points_rows:
  assumes ok: "\<not> failing d"
    and r: "r \<in> set (user_points (snd (write_points today yesterday d userId pointsToAdd subject cur)))"
    and u: "up_user_id r = userId"
  shows "up_total_points r = up_total_points cur + pointsToAdd
       \<and> up_current_level r = (up_total_points cur + pointsToAdd) div 100 + 1
       \<and> up_daily_streak r = new_streak today yesterday (up_last_activity_date cur) (up_daily_streak cur)
       \<and> up_last_activity_date r = Some today"
proof -
  let ?f = "\<lambda>r. if up_user_id r = userId
                 then r\<lparr>up_total_points := up_total_points cur + pointsToAdd,
                        up_current_level := (up_total_points cur + pointsToAdd) div 100 + 1,
                        up_subject_points := (up_subject_points cur)
                          (subject \<mapsto> (case up_subject_points cur subject of
                                           None \<Rightarrow> 0 | Some p \<Rightarrow> p) + pointsToAdd),
                        up_daily_streak := new_streak today yesterday (up_last_activity_date cur)
                                             (up_daily_streak cur),
                        up_last_activity_date := Some today\<rparr>
                 else r"
  from ok r have "r \<in> ?f ` set (user_points d)"
    by (simp only: write_points_points if_False set_map)
  then obtain x where x: "r = ?f x" by (rule imageE)
  show ?thesis
  proof (cases "up_user_id x = userId")
    case True
    with x show ?thesis by simp
  next
    case False
    with x have "r = x" by simp
    with False u show ?thesis by simp
  qed
qed


lemma find_snoc:
  "find P xs = None \<Longrightarrow> P x \<Longrightarrow> find P (xs @ [x]) = Some x"
  by (induction xs) (simp_all split: if_splits)

lemma initializeUserPoints_case:
  "\<not> failing d \<Longrightarrow>
     case_prod f (initializeUserPoints today d userId)
       = f (Inr ()) (snd (initializeUserPoints today d userId))"
  "failing d \<Longrightarrow>
     case_prod f (initializeUserPoints today d userId) = f (Inl StoreError) (issued d)"
  by (simp_all add: initializeUserPoints_def)

lemma initializeUserPoints_fresh:
  assumes "find_points d userId = None" and "\<not> failing d"
  shows "find_points (snd (initializeUserPoints today d userId)) userId
           = Some (fresh_points today userId)"
proof -
  have u: "up_user_id (fresh_points today userId) = userId"
    by (simp add: fresh_points_def)
  from assms have "user_points (snd (initializeUserPoints today d userId))
                     = user_points d @ [fresh_points today userId]"
    by (simp add: initializeUserPoints_points)
  then show ?thesis
    using assms(1) u by (simp add: find_points_def find_snoc)
qed

lemma updateUserPoints_existing:
  assumes "find_points d userId = Some cur"
  shows "updateUserPoints today yesterday d userId pointsToAdd subject =
           (if failing d then (Inl StoreError, issued d)
            else write_points today yesterday (issued d) userId pointsToAdd subject cur)"
  by (subst updateUserPoints.simps) (simp add: assms)

lemma updateUserPoints_missing:
  assumes "find_points d userId = None" and "\<not> failing d"
  shows "updateUserPoints today yesterday d userId pointsToAdd subject =
           (if failing (issued d) then (Inl StoreError, issued (issued d))
            else updateUserPoints today yesterday (snd (initializeUserPoints today (issued d) userId))
                   userId pointsToAdd subject)"
  by (subst updateUserPoints.simps) (simp add: assms initializeUserPoints_case)

text \<open>The row that \<open>updateUserPoints\<close> computes from: the stored one, or the fresh one.\<close>

lemma updateUserPoints_rows:
  assumes ok: "fst (updateUserPoints today yesterday d userId pointsToAdd subject) = Inr res"
    and r: "r \<in> set (user_points (snd (updateUserPoints today yesterday d userId pointsToAdd subject)))"
    and u: "up_user_id r = userId"
    and cur: "cur = (case find_points d userId of Some c \<Rightarrow> c
                     | None \<Rightarrow> fresh_points today userId)"
  shows "up_total_points r = up_total_points cur + pointsToAdd
       \<and> up_current_level r = (up_total_points cur + pointsToAdd) div 100 + 1
       \<and> up_daily_streak r = new_streak today yesterday (up_last_activity_date cur) (up_daily_streak cur)
       \<and> up_last_activity_date r = Some today"
proof -
  have existing: "up_total_points r = up_total_points c + pointsToAdd
       \<and> up_current_level r = (up_total_points c + pointsToAdd) div 100 + 1
       \<and> up_daily_streak r = new_streak today yesterday (up_last_activity_date c) (up_daily_streak c)
       \<and> up_last_activity_date r = Some today"
    if f: "find_points e userId = Some c"
      and o: "fst (updateUserPoints today yesterday e userId pointsToAdd subject) = Inr res"
      and m: "r \<in> set (user_points (snd (updateUserPoints today yesterday e userId pointsToAdd subject)))"
    for e c
  proof -
    from o f have a: "\<not> failing e"
      by (simp add: updateUserPoints_existing split: if_splits)
    with o f have b: "\<not> failing (issued e)"
      by (simp add: updateUserPoints_existing write_points_fst split: if_splits)
    from m f a have "r \<in> set (user_points (snd (write_points today yesterday (issued e) userId
                                                      pointsToAdd subject c)))"
      by (simp add: updateUserPoints_existing)
    with b show ?thesis using u by (rule write_points_rows)
  qed
  show ?thesis
  proof (cases "find_points d userId")
    case (Some c)
    with cur have "cur = c" by simp
    with existing [OF Some ok r] show ?thesis by simp
  next
    case None
    with cur have c: "cur = fresh_points today userId" by simp
    have a: "\<not> failing d"
    proof
      assume "failing d"
      then have "fst (updateUserPoints today yesterday d userId pointsToAdd subject) = Inl StoreError"
        by (subst updateUserPoints.simps) simp
      with ok show False by simp
    qed
    have b: "\<not> failing (issued d)"
    proof
      assume "failing (issued d)"
      with None a have "fst (updateUserPoints today yesterday d userId pointsToAdd subject)
                          = Inl StoreError"
        by (simp add: updateUserPoints_missing)
      with ok show False by simp
    qed
    let ?e = "snd (initializeUserPoints today (issued d) userId)"
    from None a b have eq: "updateUserPoints today yesterday d userId pointsToAdd subject
                        = updateUserPoints today yesterday ?e userId pointsToAdd subject"
      by (simp add: updateUserPoints_missing)
    from None b have f: "find_points ?e userId = Some (fresh_points today userId)"
      by (simp add: initializeUserPoints_fresh)
    from existing [OF f] ok r eq c show ?thesis by simp
  qed
qed


lemma find_map_same:
  "(\<And>x. P (f x) = P x) \<Longrightarrow> find P (map f xs) = map_option f (find P xs)"
  by (induction xs) simp_all

lemma find_holds: "find P xs = Some x \<Longrightarrow> P x \<and> x \<in> set xs"
  by (induction xs) (auto split: if_splits)

lemma write_points_find:
  assumes "\<not> failing d" and "find_points d userId = Some cur"
  shows "find_points (snd (write_points today yesterday d userId pointsToAdd subject cur)) userId =
           Some (cur\<lparr>up_total_points := up_total_points cur + pointsToAdd,
                     up_current_level := (up_total_points cur + pointsToAdd) div 100 + 1,
                     up_subject_points := (up_subject_points cur)
                       (subject \<mapsto> (case up_subject_points cur subject of
                                        None \<Rightarrow> 0 | Some p \<Rightarrow> p) + pointsToAdd),
                     up_daily_streak := new_streak today yesterday (up_last_activity_date cur)
                                          (up_daily_streak cur),
                     up_last_activity_date := Some today\<rparr>)"
proof -
  have u: "up_user_id cur = userId"
    using assms(2) find_holds [of "\<lambda>r. up_user_id r = userId" "user_points d" cur]
    by (simp add: find_points_def)
  show ?thesis
    unfolding find_points_def write_points_points
    using assms u
    by (simp add: find_map_same find_points_def)
qed

text \<open>When \<open>updateUserPoints\<close> resolves: the value it resolves with and the row it leaves.\<close>

lemma updateUserPoints_resolved:
  assumes ok: "fst (updateUserPoints today yesterday d userId pointsToAdd subject) = Inr res"
    and cur: "cur = (case find_points d userId of Some c \<Rightarrow> c
                     | None \<Rightarrow> fresh_points today userId)"
  shows "pr_total_points res = up_total_points cur + pointsToAdd"
    and "pr_current_level res = (up_total_points cur + pointsToAdd) div 100 + 1"
    and "pr_daily_streak res
           = new_streak today yesterday (up_last_activity_date cur) (up_daily_streak cur)"
    and "find_points (snd (updateUserPoints today yesterday d userId pointsToAdd subject)) userId =
           Some (cur\<lparr>up_total_points := up_total_points cur + pointsToAdd,
                     up_current_level := (up_total_points cur + pointsToAdd) div 100 + 1,
                     up_subject_points := (up_subject_points cur)
                       (subject \<mapsto> (case up_subject_points cur subject of
                                        None \<Rightarrow> 0 | Some p \<Rightarrow> p) + pointsToAdd),
                     up_daily_streak := new_streak today yesterday (up_last_activity_date cur)
                                          (up_daily_streak cur),
                     up_last_activity_date := Some today\<rparr>)"
proof -
  have existing:
    "pr_total_points res = up_total_points c + pointsToAdd
     \<and> pr_current_level res = (up_total_points c + pointsToAdd) div 100 + 1
     \<and> pr_daily_streak res = new_streak today yesterday (up_last_activity_date c) (up_daily_streak c)
     \<and> find_points (snd (updateUserPoints today yesterday e userId pointsToAdd subject)) userId =
           Some (c\<lparr>up_total_points := up_total_points c + pointsToAdd,
                   up_current_level := (up_total_points c + pointsToAdd) div 100 + 1,
                   up_subject_points := (up_subject_points c)
                     (subject \<mapsto> (case up_subject_points c subject of
                                      None \<Rightarrow> 0 | Some p \<Rightarrow> p) + pointsToAdd),
                   up_daily_streak := new_streak today yesterday (up_last_activity_date c)
                                        (up_daily_streak c),
                   up_last_activity_date := Some today\<rparr>)"
    if f: "find_points e userId = Some c"
      and o: "fst (updateUserPoints today yesterday e userId pointsToAdd subject) = Inr res"
    for e c
  proof -
    from o f have a: "\<not> failing e"
      by (simp add: updateUserPoints_existing split: if_splits)
    with o f have b: "\<not> failing (issued e)"
      by (simp add: updateUserPoints_existing write_points_fst split: if_splits)
    from o f a b have res: "res = \<lparr>pr_total_points = up_total_points c + pointsToAdd,
                pr_current_level = (up_total_points c + pointsToAdd) div 100 + 1,
                pr_subject_points = (up_subject_points c)
                  (subject \<mapsto> (case up_subject_points c subject of
                                   None \<Rightarrow> 0 | Some p \<Rightarrow> p) + pointsToAdd),
                pr_daily_streak = new_streak today yesterday (up_last_activity_date c)
                                    (up_daily_streak c)\<rparr>"
      by (simp add: updateUserPoints_existing write_points_fst)
    from f have f': "find_points (issued e) userId = Some c" by simp
    from a f have "snd (updateUserPoints today yesterday e userId pointsToAdd subject)
                     = snd (write_points today yesterday (issued e) userId pointsToAdd subject c)"
      by (simp add: updateUserPoints_existing)
    with write_points_find [OF b f', of today yesterday pointsToAdd subject] res
    show ?thesis by simp
  qed
  have all: "pr_total_points res = up_total_points cur + pointsToAdd
     \<and> pr_current_level res = (up_total_points cur + pointsToAdd) div 100 + 1
     \<and> pr_daily_streak res = new_streak today yesterday (up_last_activity_date cur) (up_daily_streak cur)
     \<and> find_points (snd (updateUserPoints today yesterday d userId pointsToAdd subject)) userId =
           Some (cur\<lparr>up_total_points := up_total_points cur + pointsToAdd,
                   up_current_level := (up_total_points cur + pointsToAdd) div 100 + 1,
                   up_subject_points := (up_subject_points cur)
                     (subject \<mapsto> (case up_subject_points cur subject of
                                      None \<Rightarrow> 0 | Some p \<Rightarrow> p) + pointsToAdd),
                   up_daily_streak := new_streak today yesterday (up_last_activity_date cur)
                                        (up_daily_streak cur),
                   up_last_activity_date := Some today\<rparr>)"
  proof (cases "find_points d userId")
    case (Some c)
    with cur have "cur = c" by simp
    with existing [OF Some ok] show ?thesis by simp
  next
    case None
    with cur have c: "cur = fresh_points today userId" by simp
    have a: "\<not> failing d"
    proof
      assume "failing d"
      then have "fst (updateUserPoints today yesterday d userId pointsToAdd subject) = Inl StoreError"
        by (subst updateUserPoints.simps) simp
      with ok show False by simp
    qed
    have b: "\<not> failing (issued d)"
    proof
      assume "failing (issued d)"
      with None a have "fst (updateUserPoints today yesterday d userId pointsToAdd subject)
                          = Inl StoreError"
        by (simp add: updateUserPoints_missing)
      with ok show False by simp
    qed
    let ?e = "snd (initializeUserPoints today (issued d) userId)"
    from None a b have eq: "updateUserPoints today yesterday d userId pointsToAdd subject
                        = updateUserPoints today yesterday ?e userId pointsToAdd subject"
      by (simp add: updateUserPoints_missing)
    from None b have f: "find_points ?e userId = Some (fresh_points today userId)"
      by (simp add: initializeUserPoints_fresh)
    from ok eq have "fst (updateUserPoints today yesterday ?e userId pointsToAdd subject) = Inr res"
      by simp
    from existing [OF f this] eq c show ?thesis by simp
  qed
  from all show "pr_total_points res = up_total_points cur + pointsToAdd" by simp
  from all show "pr_current_level res = (up_total_points cur + pointsToAdd) div 100 + 1"
    by simp
  from all show "pr_daily_streak res
           = new_streak today yesterday (up_last_activity_date cur) (up_daily_streak cur)" by simp
  from all show "find_points (snd (updateUserPoints today yesterday d userId pointsToAdd subject)) userId =
           Some (cur\<lparr>up_total_points := up_total_points cur + pointsToAdd,
                     up_current_level := (up_total_points cur + pointsToAdd) div 100 + 1,
                     up_subject_points := (up_subject_points cur)
                       (subject \<mapsto> (case up_subject_points cur subject of
                                        None \<Rightarrow> 0 | Some p \<Rightarrow> p) + pointsToAdd),
                     up_daily_streak := new_streak today yesterday (up_last_activity_date cur)
                                          (up_daily_streak cur),
                     up_last_activity_date := Some today\<rparr>)" by simp
qed


text \<open>
  \<open>updateUserPoints\<close> resolves when none of its statements fails: two for a student
  with an account, four for one without.
\<close>

lemma updateUserPoints_resolves:
  assumes "\<not> failing d" and "\<not> failing (issued d)"
    and "\<not> failing (issued (issued d))" and "\<not> failing (issued (issued (issued d)))"
  shows "fst (updateUserPoints today yesterday d userId pointsToAdd subject) \<noteq> Inl e"
proof (cases "find_points d userId")
  case (Some cur)
  with assms show ?thesis
    by (simp add: updateUserPoints_existing write_points_fst)
next
  case None
  let ?e = "snd (initializeUserPoints today (issued d) userId)"
  from None assms have f: "find_points ?e userId = Some (fresh_points today userId)"
    by (simp add: initializeUserPoints_fresh)
  have i: "?e = issued (issued d)\<lparr>user_points := user_points d @ [fresh_points today userId]\<rparr>"
    using assms None by (simp add: initializeUserPoints_def)
  from assms have "\<not> failing ?e" "\<not> failing (issued ?e)"
    unfolding i by simp_all
  with None assms f show ?thesis
    by (simp add: updateUserPoints_missing updateUserPoints_existing write_points_fst)
qed

text \<open>
  C1.  When \<open>updateUserPoints\<close> resolves, the level it reports and the level of every
  row of the student are \<open>total_points div 100 + 1\<close>, for any stored total and any
  award; and the row that \<open>initializeUserPoints\<close> creates for a student without an
  account satisfies the same equation.
\<close>

theorem level_invariant:
  "(fst (updateUserPoints today yesterday d userId pointsToAdd subject) = Inr res \<longrightarrow>
      pr_current_level res = pr_total_points res div 100 + 1
      \<and> map_option level_ok
            (find_points (snd (updateUserPoints today yesterday d userId pointsToAdd subject)) userId)
          = Some True
      \<and> (\<forall>r \<in> set (user_points (snd (updateUserPoints today yesterday d userId pointsToAdd subject))).
            up_user_id r = userId \<longrightarrow> level_ok r))
   \<and> (find_points d userId = None \<and> \<not> failing d \<longrightarrow>
        map_option level_ok (find_points (snd (initializeUserPoints today d userId)) userId)
          = Some True)"
proof (intro conjI impI ballI)
  assume ok: "fst (updateUserPoints today yesterday d userId pointsToAdd subject) = Inr res"
  define cur where "cur = (case find_points d userId of Some c \<Rightarrow> c
                           | None \<Rightarrow> fresh_points today userId)"
  from updateUserPoints_resolved(1,2) [OF ok cur_def]
  show "pr_current_level res = pr_total_points res div 100 + 1" by simp
  from updateUserPoints_resolved(4) [OF ok cur_def]
  show "map_option level_ok
          (find_points (snd (updateUserPoints today yesterday d userId pointsToAdd subject)) userId)
        = Some True"
    by (simp add: level_ok_def)
next
  fix r
  assume ok: "fst (updateUserPoints today yesterday d userId pointsToAdd subject) = Inr res"
    and r: "r \<in> set (user_points (snd (updateUserPoints today yesterday d userId pointsToAdd subject)))"
    and u: "up_user_id r = userId"
  from updateUserPoints_rows [OF ok r u refl] show "level_ok r"
    by (simp add: level_ok_def)
next
  assume "find_points d userId = None \<and> \<not> failing d"
  then show "map_option level_ok
               (find_points (snd (initializeUserPoints today d userId)) userId) = Some True"
    by (simp add: initializeUserPoints_fresh level_ok_def fresh_points_def)
qed

lemma updateUserPoints_95_15:
  "fst (updateUserPoints 20000 19999 (db_student 95 3 (Some 19999)) 1 15 ''math'') =
     Inr \<lparr>pr_total_points = 110, pr_current_level = 2,
          pr_subject_points = [''math'' \<mapsto> 15], pr_daily_streak = 4\<rparr>"
  by (simp add: updateUserPoints.simps db_student_def db0_def failing_def find_points_def
      write_points_def new_streak_def Let_def)

theorem level_invariant_witness:
  "fst (updateUserPoints 20000 19999 (db_student 95 3 (Some 19999)) 1 15 ''math'') =
     Inr \<lparr>pr_total_points = 110, pr_current_level = 2,
          pr_subject_points = [''math'' \<mapsto> 15], pr_daily_streak = 4\<rparr>
   \<and> map_option level_ok
        (find_points (snd (updateUserPoints 20000 19999 (db_student 95 3 (Some 19999)) 1 15 ''math''))
           1) = Some True
   \<and> find_points db0 1 = None \<and> \<not> failing db0
   \<and> map_option level_ok (find_points (snd (initializeUserPoints 20000 db0 1)) 1) = Some True"
proof -
  have f: "find_points db0 1 = None \<and> \<not> failing db0"
    by (simp add: find_points_def db0_def failing_def)
  from level_invariant [of 20000 19999 "db_student 95 3 (Some 19999)" 1 15 "''math''"
      "\<lparr>pr_total_points = 110, pr_current_level = 2,
        pr_subject_points = [''math'' \<mapsto> 15], pr_daily_streak = 4\<rparr>"]
    level_invariant [of 20000 19999 db0 1 15 "''math''"
      "\<lparr>pr_total_points = 110, pr_current_level = 2,
        pr_subject_points = [''math'' \<mapsto> 15], pr_daily_streak = 4\<rparr>"]
    updateUserPoints_95_15 f
  show ?thesis by simp
qed

text \<open>
  The streak rule on an account that exists: unchanged when the stored date is today's,
  one more when it is the date the function takes for yesterday, and 1 after any other
  stored date or none; the stored date becomes today.
\<close>

theorem streak_existing_account:
  assumes "find_points d userId = Some cur"
    and "fst (updateUserPoints today yesterday d userId pointsToAdd subject) = Inr res"
  shows "pr_daily_streak res =
           (if up_last_activity_date cur = Some today then up_daily_streak cur
            else if up_last_activity_date cur = Some yesterday then up_daily_streak cur + 1
            else 1)
       \<and> map_option up_daily_streak
             (find_points (snd (updateUserPoints today yesterday d userId pointsToAdd subject)) userId)
           = Some (pr_daily_streak res)
       \<and> map_option up_last_activity_date
             (find_points (snd (updateUserPoints today yesterday d userId pointsToAdd subject)) userId)
           = Some (Some today)"
proof -
  have c: "cur = (case find_points d userId of Some c \<Rightarrow> c
                  | None \<Rightarrow> fresh_points today userId)"
    using assms(1) by simp
  from updateUserPoints_resolved(3,4) [OF assms(2) c]
  show ?thesis by (simp add: new_streak_def)
qed

theorem streak_existing_account_witness:
  "find_points (db_student 95 3 (Some 19999)) 1
     = Some \<lparr>up_user_id = 1, up_total_points = 95, up_current_level = 1,
             up_subject_points = Map.empty, up_daily_streak = 3,
             up_last_activity_date = Some 19999\<rparr>
   \<and> fst (updateUserPoints 20000 19999 (db_student 95 3 (Some 19999)) 1 15 ''math'') =
       Inr \<lparr>pr_total_points = 110, pr_current_level = 2,
            pr_subject_points = [''math'' \<mapsto> 15], pr_daily_streak = 4\<rparr>
   \<and> map_option up_daily_streak
         (find_points (snd (updateUserPoints 20000 19999 (db_student 95 3 (Some 19999)) 1 15
                              ''math'')) 1) = Some 4
   \<and> map_option up_last_activity_date
         (find_points (snd (updateUserPoints 20000 19999 (db_student 95 3 (Some 19999)) 1 15
                              ''math'')) 1) = Some (Some 20000)"
proof -
  have f: "find_points (db_student 95 3 (Some 19999)) 1
     = Some \<lparr>up_user_id = 1, up_total_points = 95, up_current_level = 1,
             up_subject_points = Map.empty, up_daily_streak = 3,
             up_last_activity_date = Some 19999\<rparr>"
    by (simp add: find_points_def db_student_def db0_def)
  from streak_existing_account [OF f updateUserPoints_95_15] f updateUserPoints_95_15
  show ?thesis by simp
qed

text \<open>
  C6 fails at the first award of a student without an account: the account is created
  with streak 0 and today as its last activity date, so the award finds the stored date
  equal to today and leaves the streak at 0.
\<close>

theorem first_award_streak:
  assumes "find_points d userId = None"
    and "fst (updateUserPoints today yesterday d userId pointsToAdd subject) = Inr res"
  shows "pr_daily_streak res = 0
       \<and> map_option up_daily_streak
             (find_points (snd (updateUserPoints today yesterday d userId pointsToAdd subject)) userId)
           = Some 0"
proof -
  have c: "fresh_points today userId = (case find_points d userId of Some c \<Rightarrow> c
                  | None \<Rightarrow> fresh_points today userId)"
    using assms(1) by simp
  from updateUserPoints_resolved(3,4) [OF assms(2) c]
  show ?thesis by (simp add: new_streak_def fresh_points_def)
qed

text \<open>
  The first award of student 1 on day 20000 and the award of the next day, on the empty
  store: the streak is 0 after the first and 1 after the second.
\<close>

lemma first_awards_db0:
  "fst (updateUserPoints 20000 19999 db0 1 15 ''math'') =
     Inr \<lparr>pr_total_points = 15, pr_current_level = 1,
          pr_subject_points = [''math'' \<mapsto> 15], pr_daily_streak = 0\<rparr>
   \<and> fst (updateUserPoints 20001 20000 (snd (updateUserPoints 20000 19999 db0 1 15 ''math'')) 1 15
            ''math'') =
     Inr \<lparr>pr_total_points = 30, pr_current_level = 1,
          pr_subject_points = [''math'' \<mapsto> 30], pr_daily_streak = 1\<rparr>"
  by (simp add: updateUserPoints.simps db0_def failing_def find_points_def
      initializeUserPoints_def fresh_points_def write_points_def new_streak_def Let_def
      issued_def)

theorem first_award_streak_witness:
  "find_points db0 1 = None
   \<and> fst (updateUserPoints 20000 19999 db0 1 15 ''math'') =
     Inr \<lparr>pr_total_points = 15, pr_current_level = 1,
          pr_subject_points = [''math'' \<mapsto> 15], pr_daily_streak = 0\<rparr>
   \<and> map_option up_daily_streak
         (find_points (snd (updateUserPoints 20000 19999 db0 1 15 ''math'')) 1) = Some 0"
proof -
  have f: "find_points db0 1 = None"
    by (simp add: find_points_def db0_def)
  have r: "fst (updateUserPoints 20000 19999 db0 1 15 ''math'') =
     Inr \<lparr>pr_total_points = 15, pr_current_level = 1,
          pr_subject_points = [''math'' \<mapsto> 15], pr_daily_streak = 0\<rparr>"
    using first_awards_db0 by simp
  from first_award_streak [OF f r] f r show ?thesis by simp
qed

section \<open>Progress tracker\<close>

lemma find_progress_issued [simp]:
  "find_progress (issued d) u s t = find_progress d u s t"
  by (simp add: find_progress_def)

lemma updateProgress_fst:
  "fst (updateProgress d u s t c sc ts) =
     (if failing d \<or> failing (issued d) then Inl StoreError
      else Inr (case find_progress d u s t of
                  Some e \<Rightarrow>
                    \<lparr>pg_created = False, pg_updated = True,
                     pg_completion_percentage = max (sp_completion_percentage e) c,
                     pg_score = max (sp_score e) sc, pg_attempts = sp_attempts e + 1\<rparr>
                | None \<Rightarrow>
                    \<lparr>pg_created = True, pg_updated = False, pg_completion_percentage = c,
                     pg_score = sc, pg_attempts = 1\<rparr>))"
  by (simp add: updateProgress_def Let_def split: option.split)

lemma updateProgress_rows:
  "student_progress (snd (updateProgress d u s t c sc ts)) =
     (if failing d \<or> failing (issued d) then student_progress d
      else case find_progress d u s t of
             Some e \<Rightarrow>
               map (\<lambda>r. if same_topic u s t r
                         then r\<lparr>sp_completion_percentage := max (sp_completion_percentage e) c,
                                sp_score := max (sp_score e) sc,
                                sp_time_spent := sp_time_spent e + ts,
                                sp_attempts := sp_attempts e + 1\<rparr>
                         else r)
                   (student_progress d)
           | None \<Rightarrow>
               student_progress d @
                 [\<lparr>sp_student_id = u, sp_subject = s, sp_topic = t,
                   sp_completion_percentage = c, sp_score = sc, sp_time_spent = ts,
                   sp_attempts = 1\<rparr>])"
  by (simp add: updateProgress_def Let_def split: option.split)

lemma updateProgress_other_tables [simp]:
  "user_points (snd (updateProgress d u s t c sc ts)) = user_points d"
  "user_achievements (snd (updateProgress d u s t c sc ts)) = user_achievements d"
  "achievements (snd (updateProgress d u s t c sc ts)) = achievements d"
  "game_scores (snd (updateProgress d u s t c sc ts)) = game_scores d"
  "faults (snd (updateProgress d u s t c sc ts)) = faults d"
  by (simp_all add: updateProgress_def Let_def split: option.split)

text \<open>The row of the topic after an update that resolved.\<close>

lemma updateProgress_stored:
  assumes "fst (updateProgress d u s t c sc ts) = Inr res"
  shows "find_progress (snd (updateProgress d u s t c sc ts)) u s t =
           Some (case find_progress d u s t of
                   Some e \<Rightarrow> e\<lparr>sp_completion_percentage := max (sp_completion_percentage e) c,
                                sp_score := max (sp_score e) sc,
                                sp_time_spent := sp_time_spent e + ts,
                                sp_attempts := sp_attempts e + 1\<rparr>
                 | None \<Rightarrow> \<lparr>sp_student_id = u, sp_subject = s, sp_topic = t,
                             sp_completion_percentage = c, sp_score = sc,
                             sp_time_spent = ts, sp_attempts = 1\<rparr>)"
proof -
  from assms have ok: "\<not> (failing d \<or> failing (issued d))"
    by (simp add: updateProgress_fst split: if_splits)
  show ?thesis
  proof (cases "find_progress d u s t")
    case None
    have k: "same_topic u s t \<lparr>sp_student_id = u, sp_subject = s, sp_topic = t,
               sp_completion_percentage = c, sp_score = sc, sp_time_spent = ts,
               sp_attempts = 1\<rparr>"
      by (simp add: same_topic_def)
    from None have "find (same_topic u s t) (student_progress d) = None"
      by (simp add: find_progress_def)
    from find_snoc [OF this k] ok None show ?thesis
      by (simp add: find_progress_def [of "snd (updateProgress d u s t c sc ts)"]
          updateProgress_rows)
  next
    case (Some e)
    let ?f = "\<lambda>r. if same_topic u s t r
                   then r\<lparr>sp_completion_percentage := max (sp_completion_percentage e) c,
                          sp_score := max (sp_score e) sc,
                          sp_time_spent := sp_time_spent e + ts,
                          sp_attempts := sp_attempts e + 1\<rparr>
                   else r"
    have p: "\<And>x. same_topic u s t (?f x) = same_topic u s t x"
      by (simp add: same_topic_def)
    from Some have e: "same_topic u s t e"
      using find_holds [of "same_topic u s t" "student_progress d" e]
      by (simp add: find_progress_def)
    from Some have fe: "find (same_topic u s t) (student_progress d) = Some e"
      by (simp add: find_progress_def)
    have "find (same_topic u s t) (map ?f (student_progress d))
            = map_option ?f (find (same_topic u s t) (student_progress d))"
      using p by (rule find_map_same)
    with fe have m: "find (same_topic u s t) (map ?f (student_progress d)) = Some (?f e)"
      by simp
    from ok Some have rows: "student_progress (snd (updateProgress d u s t c sc ts))
                         = map ?f (student_progress d)"
      by (simp add: updateProgress_rows)
    have "find_progress (snd (updateProgress d u s t c sc ts)) u s t = Some (?f e)"
      unfolding find_progress_def rows by (rule m)
    with e Some show ?thesis by simp
  qed
qed


text \<open>
  C5.  Two updates of one (student, subject, topic) that both resolve, with scores
  \<open>s1 < s2\<close> in either order: the stored score is \<open>s2\<close> when there was no row before
  and the maximum of the old score and \<open>s2\<close> otherwise; the stored completion is the
  maximum of the values seen; and the attempts grow by two, one per call, whether or not
  the call brought a lower value.
\<close>

theorem updateProgress_twice:
  assumes lt: "s1 < s2"
    and order: "(sa, sb) = (s1, s2) \<or> (sa, sb) = (s2, s1)"
    and first: "fst (updateProgress d u s t ca sa ta) = Inr ra"
    and second: "fst (updateProgress (snd (updateProgress d u s t ca sa ta)) u s t cb sb tb)
                   = Inr rb"
  shows "map_option sp_score
           (find_progress
              (snd (updateProgress (snd (updateProgress d u s t ca sa ta)) u s t cb sb tb))
              u s t)
         = Some (case find_progress d u s t of
                   None \<Rightarrow> s2 | Some e \<Rightarrow> max (sp_score e) s2)
       \<and> map_option sp_completion_percentage
           (find_progress
              (snd (updateProgress (snd (updateProgress d u s t ca sa ta)) u s t cb sb tb))
              u s t)
         = Some (case find_progress d u s t of
                   None \<Rightarrow> max ca cb
                 | Some e \<Rightarrow> max (sp_completion_percentage e) (max ca cb))
       \<and> map_option sp_attempts
           (find_progress
              (snd (updateProgress (snd (updateProgress d u s t ca sa ta)) u s t cb sb tb))
              u s t)
         = Some (case find_progress d u s t of
                   None \<Rightarrow> 2 | Some e \<Rightarrow> sp_attempts e + 2)
       \<and> pg_attempts rb = pg_attempts ra + 1
       \<and> pg_score rb = (case find_progress d u s t of
                          None \<Rightarrow> s2 | Some e \<Rightarrow> max (sp_score e) s2)"
proof -
  let ?d1 = "snd (updateProgress d u s t ca sa ta)"
  from order lt have m: "max sa sb = s2" by auto
  note st1 = updateProgress_stored [OF first]
  note st2 = updateProgress_stored [OF second]
  from first have ok1: "\<not> (failing d \<or> failing (issued d))"
    by (simp add: updateProgress_fst split: if_splits)
  from second have ok2: "\<not> (failing ?d1 \<or> failing (issued ?d1))"
    by (simp add: updateProgress_fst split: if_splits)
  from first ok1 have ra: "pg_attempts ra =
      (case find_progress d u s t of None \<Rightarrow> 1 | Some e \<Rightarrow> sp_attempts e + 1)"
    by (auto simp: updateProgress_fst split: option.splits)
  from second ok2 have rb: "pg_attempts rb =
      (case find_progress ?d1 u s t of None \<Rightarrow> 1 | Some e \<Rightarrow> sp_attempts e + 1)"
    "pg_score rb =
      (case find_progress ?d1 u s t of None \<Rightarrow> sb | Some e \<Rightarrow> max (sp_score e) sb)"
    by (auto simp: updateProgress_fst split: option.splits)
  show ?thesis
  proof (cases "find_progress d u s t")
    case None
    with st1 st2 ra rb m show ?thesis by (simp add: max.commute)
  next
    case (Some e)
    with st1 st2 ra rb m show ?thesis by (simp add: max.assoc)
  qed
qed

lemma updateProgress_70_40:
  "fst (updateProgress db0 1 ''math'' ''Algebra'' 80 70 60) =
     Inr \<lparr>pg_created = True, pg_updated = False, pg_completion_percentage = 80,
          pg_score = 70, pg_attempts = 1\<rparr>
   \<and> fst (updateProgress (snd (updateProgress db0 1 ''math'' ''Algebra'' 80 70 60))
            1 ''math'' ''Algebra'' 30 40 20) =
     Inr \<lparr>pg_created = False, pg_updated = True, pg_completion_percentage = 80,
          pg_score = 70, pg_attempts = 2\<rparr>"
  by (simp add: updateProgress_def db0_def failing_def find_progress_def same_topic_def
      Let_def issued_def)

theorem updateProgress_twice_witness:
  "(40::int) < 70
   \<and> fst (updateProgress db0 1 ''math'' ''Algebra'' 80 70 60) =
     Inr \<lparr>pg_created = True, pg_updated = False, pg_completion_percentage = 80,
          pg_score = 70, pg_attempts = 1\<rparr>
   \<and> fst (updateProgress (snd (updateProgress db0 1 ''math'' ''Algebra'' 80 70 60))
            1 ''math'' ''Algebra'' 30 40 20) =
     Inr \<lparr>pg_created = False, pg_updated = True, pg_completion_percentage = 80,
          pg_score = 70, pg_attempts = 2\<rparr>
   \<and> map_option sp_score
         (find_progress
            (snd (updateProgress (snd (updateProgress db0 1 ''math'' ''Algebra'' 80 70 60))
                    1 ''math'' ''Algebra'' 30 40 20))
            1 ''math'' ''Algebra'') = Some 70
   \<and> map_option sp_attempts
         (find_progress
            (snd (updateProgress (snd (updateProgress db0 1 ''math'' ''Algebra'' 80 70 60))
                    1 ''math'' ''Algebra'' 30 40 20))
            1 ''math'' ''Algebra'') = Some 2"
proof -
  have n: "find_progress db0 1 ''math'' ''Algebra'' = None"
    by (simp add: find_progress_def db0_def)
  have o: "(70::int, 40::int) = (40, 70) \<or> (70::int, 40::int) = (70, 40)" by simp
  have l: "(40::int) < 70" by simp
  from updateProgress_twice [OF l o conjunct1 [OF updateProgress_70_40]
      conjunct2 [OF updateProgress_70_40]] n updateProgress_70_40
  show ?thesis by simp
qed

section \<open>Game score recorder\<close>

lemma calc_points_95_120: "calc_points 95 120 = 44"
  by (simp add: calc_points_def)

text \<open>
  C4, as amended.  A valid submission with score 95 and 120 seconds, for one of the four
  subjects and with both statements of the handler succeeding, is answered with
  \<open>pointsEarned = 44\<close>: 9 base points, 20 for a score of at least 90, 10 for a score of
  at least 70, and 5 for a time under 300 seconds.
\<close>

theorem submit_score_95_120:
  assumes "score_body_valid body" and "b_score body = 95" and "b_time_taken body = Some 120"
    and "subject \<in> set subjects" and "\<not> failing d" and "\<not> failing (issued d)"
  shows "points_of (fst (submit_score d userId subject gameId body)) = Some 44"
  using assms
  by (simp add: submit_score_def saveGameScore_def getUserGameScores_def points_of_def
      calc_points_95_120 Let_def)

theorem submit_score_95_120_witness:
  "score_body_valid body_95_120 \<and> b_score body_95_120 = 95
   \<and> b_time_taken body_95_120 = Some 120 \<and> ''math'' \<in> set subjects
   \<and> \<not> failing db0 \<and> \<not> failing (issued db0)
   \<and> points_of (fst (submit_score db0 1 ''math'' ''number-puzzles'' body_95_120)) = Some 44"
proof -
  have h: "score_body_valid body_95_120" "b_score body_95_120 = 95"
    "b_time_taken body_95_120 = Some 120" "''math'' \<in> set subjects"
    "\<not> failing db0" "\<not> failing (issued db0)"
    by (simp_all add: score_body_valid_def body_95_120_def subjects_def failing_def db0_def)
  from h submit_score_95_120 [OF h, of 1 "''number-puzzles''"] show ?thesis by simp
qed

text \<open>
  C4 as stated fails: the reply to the submission with score 95 and 120 seconds on the
  empty store does not carry \<open>pointsEarned = 34\<close>.
\<close>

theorem submit_score_95_120_not_34:
  "points_of (fst (submit_score db0 1 ''math'' ''number-puzzles'' body_95_120)) \<noteq> Some 34"
  by (simp add: submit_score_def saveGameScore_def getUserGameScores_def points_of_def
      calc_points_def Let_def score_body_valid_def body_95_120_def subjects_def failing_def
      db0_def)

section \<open>Achievement evaluator: the tables it leaves alone\<close>

lemma awardAchievement_tables [simp]:
  "user_points (snd (awardAchievement d u a)) = user_points d"
  "student_progress (snd (awardAchievement d u a)) = student_progress d"
  "achievements (snd (awardAchievement d u a)) = achievements d"
  "game_scores (snd (awardAchievement d u a)) = game_scores d"
  "faults (snd (awardAchievement d u a)) = faults d"
  by (simp_all add: awardAchievement_def)

lemma award_each_tables:
  "user_points (snd (award_each d u earned stats as acc)) = user_points d
   \<and> student_progress (snd (award_each d u earned stats as acc)) = student_progress d
   \<and> achievements (snd (award_each d u earned stats as acc)) = achievements d
   \<and> game_scores (snd (award_each d u earned stats as acc)) = game_scores d
   \<and> faults (snd (award_each d u earned stats as acc)) = faults d"
  by (induction as arbitrary: d acc) (simp_all add: case_prod_beta split: sum.split)

lemma check_and_award_tables:
  "user_points (snd (check_and_award d u)) = user_points d
   \<and> student_progress (snd (check_and_award d u)) = student_progress d
   \<and> achievements (snd (check_and_award d u)) = achievements d
   \<and> game_scores (snd (check_and_award d u)) = game_scores d
   \<and> faults (snd (check_and_award d u)) = faults d"
  by (simp add: check_and_award_def getUserAchievements_def getUserStats_def
      getAllAchievements_def award_each_tables Let_def)

lemma checkAndAwardAchievements_tables [simp]:
  "user_points (snd (checkAndAwardAchievements d u)) = user_points d"
  "student_progress (snd (checkAndAwardAchievements d u)) = student_progress d"
  "achievements (snd (checkAndAwardAchievements d u)) = achievements d"
  "game_scores (snd (checkAndAwardAchievements d u)) = game_scores d"
  "faults (snd (checkAndAwardAchievements d u)) = faults d"
  using check_and_award_tables [of d u]
  by (simp_all add: checkAndAwardAchievements_def case_prod_beta split: sum.split)

section \<open>The catalogue in the order of the query\<close>

lemma sorted_catalogue:
  "sort_key (\<lambda>a. (a_category a, a_points_required a))
     [\<lparr>a_id = 1, a_name = ''First Steps'', a_category = Some ''progress'',
       a_points_required = 10\<rparr>,
      \<lparr>a_id = 2, a_name = ''Game Master'', a_category = Some ''gaming'',
       a_points_required = 100\<rparr>,
      \<lparr>a_id = 3, a_name = ''Physics Explorer'', a_category = Some ''physics'',
       a_points_required = 500\<rparr>,
      \<lparr>a_id = 4, a_name = ''Chemistry Wizard'', a_category = Some ''chemistry'',
       a_points_required = 500\<rparr>,
      \<lparr>a_id = 5, a_name = ''Math Genius'', a_category = Some ''math'',
       a_points_required = 300\<rparr>,
      \<lparr>a_id = 6, a_name = ''Biology Expert'', a_category = Some ''biology'',
       a_points_required = 500\<rparr>,
      \<lparr>a_id = 7, a_name = ''Daily Learner'', a_category = Some ''streak'',
       a_points_required = 50\<rparr>,
      \<lparr>a_id = 8, a_name = ''High Achiever'', a_category = Some ''performance'',
       a_points_required = 200\<rparr>]
   = [\<lparr>a_id = 6, a_name = ''Biology Expert'', a_category = Some ''biology'',
       a_points_required = 500\<rparr>,
      \<lparr>a_id = 4, a_name = ''Chemistry Wizard'', a_category = Some ''chemistry'',
       a_points_required = 500\<rparr>,
      \<lparr>a_id = 2, a_name = ''Game Master'', a_category = Some ''gaming'',
       a_points_required = 100\<rparr>,
      \<lparr>a_id = 5, a_name = ''Math Genius'', a_category = Some ''math'',
       a_points_required = 300\<rparr>,
      \<lparr>a_id = 8, a_name = ''High Achiever'', a_category = Some ''performance'',
       a_points_required = 200\<rparr>,
      \<lparr>a_id = 3, a_name = ''Physics Explorer'', a_category = Some ''physics'',
       a_points_required = 500\<rparr>,
      \<lparr>a_id = 1, a_name = ''First Steps'', a_category = Some ''progress'',
       a_points_required = 10\<rparr>,
      \<lparr>a_id = 7, a_name = ''Daily Learner'', a_category = Some ''streak'',
       a_points_required = 50\<rparr>]"
  by simp

section \<open>binary64 arithmetic\<close>

text \<open>
  \<open>exponent\<close> finds the binade: \<open>2^e \<le> |x| < 2^(e+1)\<close> for every \<open>x\<close> but 0.
\<close>

lemma nearest_even_of_int [simp]: "nearest_even (of_int n) = n"
  by (simp add: nearest_even_def)

lemma exponent_ge1:
  assumes "1 \<le> \<bar>x\<bar>"
  shows "0 \<le> exponent x"
    and "2 ^ nat (exponent x) \<le> \<bar>x\<bar>"
    and "\<bar>x\<bar> < 2 ^ Suc (nat (exponent x))"
proof -
  let ?n = "\<lfloor>\<bar>x\<bar>\<rfloor>"
  from assms have n: "0 < ?n" by simp
  from bitlen_bounds [OF n]
  have lo: "2 ^ nat (bitlen ?n - 1) \<le> ?n" and hi: "?n < 2 ^ nat (bitlen ?n)" by simp_all
  from n have b: "1 \<le> bitlen ?n" by (simp add: bitlen_alt_def)
  from assms have e: "exponent x = bitlen ?n - 1" by (simp add: exponent_def)
  from b e show "0 \<le> exponent x" by simp
  have "real_of_int (2 ^ nat (bitlen ?n - 1)) \<le> real_of_int ?n"
    using lo by (simp only: of_int_le_iff)
  also have "\<dots> \<le> \<bar>x\<bar>" by simp
  finally show "2 ^ nat (exponent x) \<le> \<bar>x\<bar>" by (simp add: e)
  from hi have "?n + 1 \<le> 2 ^ nat (bitlen ?n)" by simp
  then have "real_of_int (?n + 1) \<le> real_of_int (2 ^ nat (bitlen ?n))"
    by (simp only: of_int_le_iff)
  moreover have "\<bar>x\<bar> < real_of_int (?n + 1)" by linarith
  ultimately have "\<bar>x\<bar> < 2 ^ nat (bitlen ?n)" by (simp only: of_int_power of_int_numeral)
  moreover from b have "nat (bitlen ?n) = Suc (nat (bitlen ?n - 1))" by simp
  ultimately show "\<bar>x\<bar> < 2 ^ Suc (nat (exponent x))" by (simp add: e)
qed

lemma exponent_unique_ge1:
  assumes "(2::real) ^ k \<le> \<bar>x\<bar>" and "\<bar>x\<bar> < 2 ^ Suc k"
  shows "exponent x = int k"
proof -
  have "(1::real) \<le> 2 ^ k" by simp
  with assms(1) have x: "1 \<le> \<bar>x\<bar>" by linarith
  note e = exponent_ge1 [OF x]
  from e(2) assms(2) have "(2::real) ^ nat (exponent x) < 2 ^ Suc k" by linarith
  then have "nat (exponent x) < Suc k" by (rule power_less_imp_less_exp [rotated]) simp
  moreover from assms(1) e(3) have "(2::real) ^ k < 2 ^ Suc (nat (exponent x))" by linarith
  then have "k < Suc (nat (exponent x))" by (rule power_less_imp_less_exp [rotated]) simp
  ultimately have "nat (exponent x) = k" by simp
  with e(1) show ?thesis by simp
qed

lemma round64_Ints:
  assumes "x \<in> \<int>" and "\<bar>x\<bar> < 2 ^ 53"
  shows "round64 x = x"
proof (cases "x = 0")
  case True
  then show ?thesis by (simp add: round64_def)
next
  case False
  from assms(1) obtain n where n: "x = of_int n" by (auto elim: Ints_cases)
  with False have "1 \<le> \<bar>n\<bar>" by simp
  then have x: "1 \<le> \<bar>x\<bar>" unfolding n by simp
  note e = exponent_ge1 [OF x]
  from e(2) assms(2) have "(2::real) ^ nat (exponent x) < 2 ^ 53" by linarith
  then have "nat (exponent x) < 53" by (rule power_less_imp_less_exp [rotated]) simp
  with e(1) have k: "0 \<le> exponent x" "exponent x \<le> 52" by simp_all
  define m where "m = nat (52 - exponent x)"
  from k have q: "max (exponent x) (- 1022) - 52 = - int m" by (simp add: m_def)
  have "x / 2 powi (- int m) = of_int (n * 2 ^ m)"
    by (simp add: n power_int_minus field_simps)
  then have ne: "nearest_even (x / 2 powi (- int m)) = n * 2 ^ m"
    by (simp only: nearest_even_of_int)
  from False have "round64 x = of_int (nearest_even (x / 2 powi (- int m))) * 2 powi (- int m)"
    by (simp add: round64_def Let_def q)
  also have "\<dots> = x"
    unfolding ne by (simp add: n power_int_minus)
  finally show ?thesis .
qed

lemma exponent_lt1:
  assumes "x \<noteq> 0" and "\<bar>x\<bar> < 1"
  shows "exponent x < 0"
    and "2 powi (exponent x) \<le> \<bar>x\<bar>"
    and "\<bar>x\<bar> < 2 powi (exponent x + 1)"
proof -
  let ?y = "1 / \<bar>x\<bar>"
  let ?m = "\<lceil>?y\<rceil> - 1"
  from assms have y: "1 < ?y" by simp
  then have m: "0 < ?m" by linarith
  from bitlen_bounds [OF m]
  have lo: "2 ^ nat (bitlen ?m - 1) \<le> ?m" and hi: "?m < 2 ^ nat (bitlen ?m)" by simp_all
  from m have b: "1 \<le> bitlen ?m" by (simp add: bitlen_alt_def)
  from assms have e: "exponent x = - bitlen ?m" by (simp add: exponent_def)
  from b e show "exponent x < 0" by simp
  have "real_of_int ?m < ?y" by linarith
  moreover have "real_of_int (2 ^ nat (bitlen ?m - 1)) \<le> real_of_int ?m"
    using lo by (simp only: of_int_le_iff)
  ultimately have 1: "2 ^ nat (bitlen ?m - 1) < ?y" by simp
  from hi have "?m + 1 \<le> 2 ^ nat (bitlen ?m)" by simp
  then have "real_of_int (?m + 1) \<le> real_of_int (2 ^ nat (bitlen ?m))"
    by (simp only: of_int_le_iff)
  moreover have "?y \<le> real_of_int (?m + 1)" by linarith
  ultimately have 2: "?y \<le> 2 ^ nat (bitlen ?m)"
    by (simp only: of_int_power of_int_numeral)
  from assms have x: "0 < \<bar>x\<bar>" by simp
  from 2 x have "1 \<le> 2 ^ nat (bitlen ?m) * \<bar>x\<bar>" by (simp add: field_simps)
  then have "1 / 2 ^ nat (bitlen ?m) \<le> \<bar>x\<bar>" by (simp add: field_simps)
  moreover from b have "2 powi (- bitlen ?m) = (1::real) / 2 ^ nat (bitlen ?m)"
    by (simp add: power_int_def field_simps)
  ultimately show "2 powi (exponent x) \<le> \<bar>x\<bar>" by (simp add: e)
  from 1 x have "2 ^ nat (bitlen ?m - 1) * \<bar>x\<bar> < 1" by (simp add: field_simps)
  then have "\<bar>x\<bar> < 1 / 2 ^ nat (bitlen ?m - 1)" by (simp add: field_simps)
  moreover from b have "2 powi (- bitlen ?m + 1) = (1::real) / 2 ^ nat (bitlen ?m - 1)"
    by (simp add: power_int_def field_simps)
  ultimately show "\<bar>x\<bar> < 2 powi (exponent x + 1)" by (simp add: e)
qed

lemma exponent_bounds:
  assumes "x \<noteq> 0"
  shows "2 powi (exponent x) \<le> \<bar>x\<bar> \<and> \<bar>x\<bar> < 2 powi (exponent x + 1)"
proof (cases "1 \<le> \<bar>x\<bar>")
  case True
  note e = exponent_ge1 [OF True]
  from e(1) have "2 powi (exponent x) = (2::real) ^ nat (exponent x)"
    and "2 powi (exponent x + 1) = (2::real) ^ Suc (nat (exponent x))"
    by (simp_all add: power_int_def nat_add_distrib)
  with e(2,3) show ?thesis by simp
next
  case False
  with exponent_lt1 [OF assms] show ?thesis by simp
qed

text \<open>
  An integer below \<open>2^53\<close> in absolute value is a binary64 value, so it is rounded to
  itself; and rounding keeps the sign.
\<close>

lemma nearest_even_nonpos: "y \<le> 0 \<Longrightarrow> nearest_even y \<le> 0"
  unfolding nearest_even_def Let_def by (auto; linarith)

lemma round64_nonpos: "x \<le> 0 \<Longrightarrow> round64 x \<le> 0"
  by (simp add: round64_def Let_def mult_le_0_iff nearest_even_nonpos divide_le_0_iff)

lemma repeat_points_nonpos:
  assumes "c < 50"
  shows "\<lfloor>js_div (js_sub c 50) 10\<rfloor> * 2 \<le> 0"
proof -
  from assms have "js_sub c 50 \<le> 0" by (simp add: js_sub_def round64_nonpos)
  then have "js_div (js_sub c 50) 10 \<le> 0" by (simp add: js_div_def round64_nonpos)
  then have "\<lfloor>js_div (js_sub c 50) 10\<rfloor> \<le> 0" by simp
  then show ?thesis by simp
qed

text \<open>
  The rounding shows at a completion of 9.999999999999998, the binary64 value
  \<open>10 - 2^(-49)\<close>: the difference to 50 is rounded to \<open>-40\<close>, and a repeat update
  gets \<open>-8\<close> points, where the exact quotient has the floor \<open>-5\<close> and would give
  \<open>-10\<close>.
\<close>

lemma js_sub_just_below_10: "js_sub (10 - 1 / 2 ^ 49) 50 = - 40"
  by (simp add: js_sub_def round64_def Let_def exponent_unique_ge1 [where k = 5]
      nearest_even_def power_int_def power_one_over)

lemma repeat_points_just_below_10:
  "\<lfloor>js_div (js_sub (10 - 1 / 2 ^ 49) 50) 10\<rfloor> * 2 = - 8
   \<and> \<lfloor>((10 - 1 / 2 ^ 49) - 50) / 10 :: real\<rfloor> * 2 = - 10"
  by (simp only: js_sub_just_below_10) (simp add: js_div_def round64_Ints)

section \<open>The handler of the progress route\<close>

lemma credit_points_fst:
  "fst (credit_points today yesterday d u p s) =
     (if p > 0
      then (case fst (updateUserPoints today yesterday d u p s) of Inl e \<Rightarrow> Inl e | Inr r \<Rightarrow> Inr ())
      else Inr ())"
  by (simp add: credit_points_def case_prod_beta split: sum.split)

lemma credit_points_snd:
  "snd (credit_points today yesterday d u p s) =
     (if p > 0 then snd (updateUserPoints today yesterday d u p s) else d)"
  by (simp add: credit_points_def case_prod_beta split: sum.split)

lemma progress_handler_eq:
  "progress_handler today yesterday d u body =
     (if \<not> progress_body_valid body then (ProgressValidationFailed, d)
      else
        let p = updateProgress d u (pb_subject body) (pb_topic body)
                  (pb_completion_percentage body)
                  (case pb_score body of None \<Rightarrow> 0 | Some s \<Rightarrow> s)
                  (case pb_time_spent body of None \<Rightarrow> 0 | Some t \<Rightarrow> t)
        in case fst p of
             Inl e \<Rightarrow> (ProgressFailed, snd p)
           | Inr res \<Rightarrow>
               let pts = progress_points res (pb_completion_percentage body)
                           (case pb_score body of None \<Rightarrow> 0 | Some s \<Rightarrow> s);
                   q = credit_points today yesterday (snd p) u pts (pb_subject body)
               in (case fst q of
                    Inl e \<Rightarrow> (ProgressFailed, snd q)
                  | Inr x \<Rightarrow>
                      (ProgressUpdated
                         \<lparr>rp_progress = res, rp_pointsEarned = pts,
                          rp_newAchievements = fst (checkAndAwardAchievements (snd q) u)\<rparr>,
                       snd (checkAndAwardAchievements (snd q) u))))"
  by (simp add: progress_handler_def Let_def case_prod_beta split: sum.split)

text \<open>
  C3, as amended.  When the handler of the progress route answers with success for a
  student who has an account, the total of the account grows by the reported
  \<open>pointsEarned\<close> if that is positive and is unchanged otherwise; on a repeat update
  the reported value is \<open>Math.floor((completion - 50) / 10) * 2\<close> in binary64
  arithmetic, and for a completion below 50 it is not positive, so the total stays as
  it was.
\<close>

theorem progress_points_guarded:
  assumes f: "find_points d studentId = Some r"
    and ok: "fst (progress_handler today yesterday d studentId body) = ProgressUpdated rep"
  shows "map_option up_total_points
           (find_points (snd (progress_handler today yesterday d studentId body)) studentId)
         = Some (up_total_points r
                 + (if rp_pointsEarned rep > 0 then rp_pointsEarned rep else 0))
       \<and> (pg_updated (rp_progress rep) \<longrightarrow>
            rp_pointsEarned rep
              = \<lfloor>js_div (js_sub (pb_completion_percentage body) 50) 10\<rfloor> * 2)
       \<and> (pg_updated (rp_progress rep) \<and> pb_completion_percentage body < 50 \<longrightarrow>
            rp_pointsEarned rep \<le> 0
            \<and> map_option up_total_points
                  (find_points (snd (progress_handler today yesterday d studentId body))
                     studentId)
                = Some (up_total_points r))"
proof -
  let ?sc = "case pb_score body of None \<Rightarrow> 0 | Some s \<Rightarrow> s"
  let ?ts = "case pb_time_spent body of None \<Rightarrow> 0 | Some t \<Rightarrow> t"
  let ?p = "updateProgress d studentId (pb_subject body) (pb_topic body)
              (pb_completion_percentage body) ?sc ?ts"
  from ok have v: "progress_body_valid body"
    by (simp add: progress_handler_eq split: if_splits)
  from ok v obtain res where res: "fst ?p = Inr res"
    by (cases "fst ?p") (simp_all add: progress_handler_eq Let_def)
  let ?pts = "progress_points res (pb_completion_percentage body) ?sc"
  let ?q = "credit_points today yesterday (snd ?p) studentId ?pts (pb_subject body)"
  from ok v res obtain x where x: "fst ?q = Inr x"
    by (cases "fst ?q") (simp_all add: progress_handler_eq Let_def)
  from ok v res x have rep: "rp_progress rep = res" "rp_pointsEarned rep = ?pts"
    by (auto simp: progress_handler_eq Let_def)
  from v res x have d3: "user_points (snd (progress_handler today yesterday d studentId body))
                      = user_points (snd ?q)"
    by (simp add: progress_handler_eq Let_def)
  have f1: "find_points (snd ?p) studentId = Some r"
    using f find_points_cong [of "snd ?p" d studentId] by simp
  from res have created: "pg_updated res \<Longrightarrow> \<not> pg_created res"
    by (auto simp: updateProgress_fst split: if_splits option.splits)
  have formula: "pg_updated (rp_progress rep) \<longrightarrow>
            rp_pointsEarned rep
              = \<lfloor>js_div (js_sub (pb_completion_percentage body) 50) 10\<rfloor> * 2"
    using rep created by (simp add: progress_points_def)
  have total: "map_option up_total_points (find_points (snd ?q) studentId)
         = Some (up_total_points r + (if ?pts > 0 then ?pts else 0))"
  proof (cases "?pts > 0")
    case True
    with x obtain res' where
      r': "fst (updateUserPoints today yesterday (snd ?p) studentId ?pts (pb_subject body)) = Inr res'"
      by (cases "fst (updateUserPoints today yesterday (snd ?p) studentId ?pts (pb_subject body))")
         (simp_all add: credit_points_fst)
    have c: "r = (case find_points (snd ?p) studentId of Some c \<Rightarrow> c
                  | None \<Rightarrow> fresh_points today studentId)"
      using f1 by simp
    from updateUserPoints_resolved(4) [OF r' c] True show ?thesis
      by (simp add: credit_points_snd)
  next
    case False
    with f1 show ?thesis by (simp add: credit_points_snd)
  qed
  have e: "find_points (snd (progress_handler today yesterday d studentId body)) studentId
          = find_points (snd ?q) studentId"
    using d3 by (rule find_points_cong)
  have t: "map_option up_total_points
          (find_points (snd (progress_handler today yesterday d studentId body)) studentId)
        = Some (up_total_points r
                + (if rp_pointsEarned rep > 0 then rp_pointsEarned rep else 0))"
    unfolding e rep(2) by (rule total)
  have below: "pg_updated (rp_progress rep) \<and> pb_completion_percentage body < 50 \<longrightarrow>
            rp_pointsEarned rep \<le> 0
            \<and> map_option up_total_points
                  (find_points (snd (progress_handler today yesterday d studentId body))
                     studentId)
                = Some (up_total_points r)"
  proof
    assume a: "pg_updated (rp_progress rep) \<and> pb_completion_percentage body < 50"
    with formula have "rp_pointsEarned rep
              = \<lfloor>js_div (js_sub (pb_completion_percentage body) 50) 10\<rfloor> * 2"
      by simp
    with a repeat_points_nonpos [of "pb_completion_percentage body"]
    have n: "rp_pointsEarned rep \<le> 0" by simp
    with t show "rp_pointsEarned rep \<le> 0
            \<and> map_option up_total_points
                  (find_points (snd (progress_handler today yesterday d studentId body))
                     studentId)
                = Some (up_total_points r)"
      by simp
  qed
  from t formula below show ?thesis by (intro conjI)
qed

lemma progress_handler_repeat_20:
  "fst (progress_handler 20000 19999 db_repeat 1 body_repeat_20) =
     ProgressUpdated
       \<lparr>rp_progress = \<lparr>pg_created = False, pg_updated = True, pg_completion_percentage = 60,
                        pg_score = 70, pg_attempts = 2\<rparr>,
        rp_pointsEarned = - 6, rp_newAchievements = []\<rparr>"
  by (simp add: progress_handler_def progress_body_valid_def body_repeat_20_def subjects_def
      updateProgress_def db_repeat_def db_student_def db0_def failing_def find_progress_def
      same_topic_def Let_def issued_def progress_points_def js_sub_def js_div_def
      round64_Ints credit_points_def checkAndAwardAchievements_def check_and_award_def
      getUserAchievements_def getUserStats_def getAllAchievements_def catalogue_def
      sorted_catalogue holds_def stats_of_def find_points_def checkAchievementCriteria_def
      completed_in_def)

lemma progress_handler_repeat_20_total:
  "map_option up_total_points
     (find_points (snd (progress_handler 20000 19999 db_repeat 1 body_repeat_20)) 1) = Some 50"
  by (simp add: progress_handler_eq progress_body_valid_def body_repeat_20_def subjects_def
      updateProgress_fst db_repeat_def db_student_def db0_def failing_def find_progress_def
      same_topic_def Let_def progress_points_def js_sub_def js_div_def round64_Ints
      credit_points_fst credit_points_snd find_points_def)

theorem progress_points_guarded_witness:
  "find_points db_repeat 1
     = Some \<lparr>up_user_id = 1, up_total_points = 50, up_current_level = 1,
             up_subject_points = Map.empty, up_daily_streak = 1,
             up_last_activity_date = Some 20000\<rparr>
   \<and> fst (progress_handler 20000 19999 db_repeat 1 body_repeat_20) =
     ProgressUpdated
       \<lparr>rp_progress = \<lparr>pg_created = False, pg_updated = True, pg_completion_percentage = 60,
                        pg_score = 70, pg_attempts = 2\<rparr>,
        rp_pointsEarned = - 6, rp_newAchievements = []\<rparr>
   \<and> map_option up_total_points
         (find_points (snd (progress_handler 20000 19999 db_repeat 1 body_repeat_20)) 1) = Some 50
   \<and> \<lfloor>js_div (js_sub (pb_completion_percentage body_repeat_20) 50) 10\<rfloor> * 2 = - 6
   \<and> pb_completion_percentage body_repeat_20 < 50"
proof -
  have f: "find_points db_repeat 1
     = Some \<lparr>up_user_id = 1, up_total_points = 50, up_current_level = 1,
             up_subject_points = Map.empty, up_daily_streak = 1,
             up_last_activity_date = Some 20000\<rparr>"
    by (simp add: find_points_def db_repeat_def db_student_def db0_def)
  have c: "pb_completion_percentage body_repeat_20 < 50"
    by (simp add: body_repeat_20_def)
  from progress_points_guarded [OF f progress_handler_repeat_20] f progress_handler_repeat_20 c
  show ?thesis by simp
qed

text \<open>
  The route as it is registered: the role check throws for every request, the answer is
  the 500 of the error middleware, and the store is as it was.
\<close>

lemma post_progress_eq:
  "post_progress today yesterday d studentId role body = (ProgressServerError, d)"
  by (simp add: post_progress_def requireStudent_def)

text \<open>
  C3 as stated fails: the handler answers the repeat submission with completion 20 with
  \<open>pointsEarned = -6\<close>, and the total stays at 50; the delta is not applied and the
  total does not decrease.  Sent to the route, the same submission is answered with
  status 500, and the total stays at 50 as well.
\<close>

theorem repeat_delta_not_applied:
  "map_option up_total_points (find_points db_repeat 1) = Some 50
   \<and> fst (post_progress 20000 19999 db_repeat 1 ''student'' body_repeat_20)
       = ProgressServerError
   \<and> map_option up_total_points
         (find_points (snd (post_progress 20000 19999 db_repeat 1 ''student'' body_repeat_20))
            1) = Some 50
   \<and> map_option rp_pointsEarned
         (case fst (progress_handler 20000 19999 db_repeat 1 body_repeat_20) of
            ProgressUpdated rep \<Rightarrow> Some rep | _ \<Rightarrow> None) = Some (- 6)
   \<and> map_option up_total_points
         (find_points (snd (progress_handler 20000 19999 db_repeat 1 body_repeat_20)) 1)
       \<noteq> Some (50 + (- 6))
   \<and> map_option up_total_points
         (find_points (snd (progress_handler 20000 19999 db_repeat 1 body_repeat_20)) 1) = Some 50"
proof (intro conjI)
  show "map_option up_total_points (find_points db_repeat 1) = Some 50"
    by (simp add: find_points_def db_repeat_def db_student_def db0_def)
  show "fst (post_progress 20000 19999 db_repeat 1 ''student'' body_repeat_20)
          = ProgressServerError"
    by (simp add: post_progress_eq)
  show "map_option up_total_points
         (find_points (snd (post_progress 20000 19999 db_repeat 1 ''student'' body_repeat_20))
            1) = Some 50"
    by (simp add: post_progress_eq find_points_def db_repeat_def db_student_def db0_def)
  show "map_option rp_pointsEarned
         (case fst (progress_handler 20000 19999 db_repeat 1 body_repeat_20) of
            ProgressUpdated rep \<Rightarrow> Some rep | _ \<Rightarrow> None) = Some (- 6)"
    unfolding progress_handler_repeat_20 by simp
  show "map_option up_total_points
         (find_points (snd (progress_handler 20000 19999 db_repeat 1 body_repeat_20)) 1)
       \<noteq> Some (50 + (- 6))"
    by (simp only: progress_handler_repeat_20_total) simp
  show "map_option up_total_points
         (find_points (snd (progress_handler 20000 19999 db_repeat 1 body_repeat_20)) 1) = Some 50"
    by (rule progress_handler_repeat_20_total)
qed

section \<open>Grants\<close>

lemma count_list_distinct:
  "distinct xs \<Longrightarrow> count_list xs x = (if x \<in> set xs then 1 else 0)"
  by (induction xs) auto

lemma awardAchievement_fst:
  "fst (awardAchievement d u a) =
     (if failing d then Inl StoreError else Inr (\<not> holds d u a))"
  by (simp add: awardAchievement_def)

lemma awardAchievement_grants:
  "user_achievements (snd (awardAchievement d u a)) =
     (if failing d \<or> holds d u a then user_achievements d
      else user_achievements d @ [\<lparr>ua_user_id = u, ua_achievement_id = a\<rparr>])"
  by (simp add: awardAchievement_def)

lemma awardAchievement_distinct:
  "distinct (user_achievements d) \<Longrightarrow> distinct (user_achievements (snd (awardAchievement d u a)))"
  by (simp add: awardAchievement_grants holds_def)

lemma awardAchievement_holds:
  "fst (awardAchievement d u a) = Inr c \<Longrightarrow> holds (snd (awardAchievement d u a)) u a"
  by (simp add: awardAchievement_fst awardAchievement_grants holds_def split: if_splits)

text \<open>
  C7.  With at most one row per (user, achievement) in \<open>user_achievements\<close>, a grant
  keeps it so, whether it resolves or not; after a grant that resolved the table has
  exactly one row for the pair, and a second grant of the same achievement to the same
  user leaves the table as it is.
\<close>

theorem grant_idempotent:
  assumes "distinct (user_achievements d)"
  shows "distinct (user_achievements (snd (awardAchievement d u a)))
       \<and> (fst (awardAchievement d u a) = Inr c \<longrightarrow>
            count_list (user_achievements (snd (awardAchievement d u a)))
              \<lparr>ua_user_id = u, ua_achievement_id = a\<rparr> = 1
          \<and> user_achievements (snd (awardAchievement (snd (awardAchievement d u a)) u a))
              = user_achievements (snd (awardAchievement d u a))
          \<and> count_list
              (user_achievements (snd (awardAchievement (snd (awardAchievement d u a)) u a)))
              \<lparr>ua_user_id = u, ua_achievement_id = a\<rparr> = 1)"
proof (intro conjI impI)
  let ?d1 = "snd (awardAchievement d u a)"
  show dist: "distinct (user_achievements ?d1)"
    using assms by (rule awardAchievement_distinct)
  assume ok: "fst (awardAchievement d u a) = Inr c"
  then have h: "holds ?d1 u a" by (rule awardAchievement_holds)
  then have m: "\<lparr>ua_user_id = u, ua_achievement_id = a\<rparr> \<in> set (user_achievements ?d1)"
    by (simp add: holds_def)
  from dist m show one: "count_list (user_achievements ?d1)
                     \<lparr>ua_user_id = u, ua_achievement_id = a\<rparr> = 1"
    by (simp add: count_list_distinct)
  from h show same: "user_achievements (snd (awardAchievement ?d1 u a))
                  = user_achievements ?d1"
    by (simp add: awardAchievement_grants)
  from one same show "count_list (user_achievements (snd (awardAchievement ?d1 u a)))
                     \<lparr>ua_user_id = u, ua_achievement_id = a\<rparr> = 1"
    by simp
qed

theorem grant_idempotent_witness:
  "distinct (user_achievements db0)
   \<and> fst (awardAchievement db0 1 2) = Inr True
   \<and> fst (awardAchievement (snd (awardAchievement db0 1 2)) 1 2) = Inr False
   \<and> user_achievements (snd (awardAchievement (snd (awardAchievement db0 1 2)) 1 2))
       = [\<lparr>ua_user_id = 1, ua_achievement_id = 2\<rparr>]
   \<and> count_list (user_achievements (snd (awardAchievement (snd (awardAchievement db0 1 2)) 1 2)))
        \<lparr>ua_user_id = 1, ua_achievement_id = 2\<rparr> = 1"
proof -
  have d: "distinct (user_achievements db0)" by (simp add: db0_def)
  have f: "fst (awardAchievement db0 1 2) = Inr True"
    by (simp add: awardAchievement_def db0_def failing_def holds_def)
  have g: "fst (awardAchievement (snd (awardAchievement db0 1 2)) 1 2) = Inr False"
    by (simp add: awardAchievement_def db0_def failing_def holds_def issued_def)
  have t: "user_achievements (snd (awardAchievement (snd (awardAchievement db0 1 2)) 1 2))
       = [\<lparr>ua_user_id = 1, ua_achievement_id = 2\<rparr>]"
    by (simp add: awardAchievement_def db0_def failing_def holds_def issued_def)
  from grant_idempotent [OF d, of 1 2 True] d f g t show ?thesis by simp
qed

text \<open>The loop of the evaluator keeps the table free of duplicates as well.\<close>

lemma award_each_distinct:
  "distinct (user_achievements d) \<Longrightarrow>
     distinct (user_achievements (snd (award_each d u earned stats as acc)))"
proof (induction as arbitrary: d acc)
  case Nil
  then show ?case by simp
next
  case (Cons x xs)
  from Cons.prems have "distinct (user_achievements (snd (awardAchievement d u (a_id x))))"
    by (rule awardAchievement_distinct)
  with Cons show ?case
    by (simp add: case_prod_beta awardAchievement_distinct split: sum.split)
qed

section \<open>Failures inside the achievement check\<close>

lemma getUserAchievements_fst:
  "fst (getUserAchievements d u) =
     (if failing d then Inl StoreError
      else Inr (filter (\<lambda>a. holds d u (a_id a)) (achievements d)))"
  "snd (getUserAchievements d u) = issued d"
  by (simp_all add: getUserAchievements_def)

lemma getUserStats_fst:
  "fst (getUserStats d u) =
     (if failing d \<or> failing (issued d) \<or> failing (issued (issued d))
         \<or> failing (issued (issued (issued d)))
      then Inl StoreError else Inr (stats_of d u))"
  "snd (getUserStats d u) = issued (issued (issued (issued d)))"
  by (simp_all add: getUserStats_def Let_def)

lemma getAllAchievements_fst:
  "fst (getAllAchievements d) =
     (if failing d then Inl StoreError
      else Inr (sort_key (\<lambda>a. (a_category a, a_points_required a)) (achievements d)))"
  "snd (getAllAchievements d) = issued d"
  by (simp_all add: getAllAchievements_def)

lemma check_and_award_eq:
  "check_and_award d u =
     (if failing d then (Inl StoreError, issued d)
      else if failing (issued d) \<or> failing (issued (issued d))
              \<or> failing (issued (issued (issued d)))
              \<or> failing (issued (issued (issued (issued d))))
      then (Inl StoreError, issued (issued (issued (issued (issued d)))))
      else if failing (issued (issued (issued (issued (issued d)))))
      then (Inl StoreError, issued (issued (issued (issued (issued (issued d))))))
      else award_each (issued (issued (issued (issued (issued (issued d)))))) u
             (map a_id (filter (\<lambda>a. holds d u (a_id a)) (achievements d)))
             (stats_of (issued d) u)
             (sort_key (\<lambda>a. (a_category a, a_points_required a)) (achievements d)) [])"
  by (simp add: check_and_award_def getUserAchievements_def getUserStats_def
      getAllAchievements_def Let_def)

text \<open>
  The three failures the evaluator can meet after it has read the student's grants: one
  of the four statistics queries, the catalogue query, and the insert of a grant.
\<close>

lemma stats_failure_throws:
  assumes "\<not> failing d"
    and "failing (issued d) \<or> failing (issued (issued d))
         \<or> failing (issued (issued (issued d)))
         \<or> failing (issued (issued (issued (issued d))))"
  shows "fst (check_and_award d u) = Inl StoreError"
  using assms by (simp add: check_and_award_eq)

lemma catalogue_failure_throws:
  assumes "\<not> failing d"
    and "failing (issued (issued (issued (issued (issued d)))))"
  shows "fst (check_and_award d u) = Inl StoreError"
  using assms by (simp add: check_and_award_eq)

lemma insert_failure_throws:
  assumes "a_id a \<notin> set earned" and "checkAchievementCriteria a stats" and "failing d"
  shows "fst (award_each d u earned stats (a # rest) acc) = Inl StoreError"
  using assms by (simp add: awardAchievement_def)

lemma awardAchievement_tick [simp]:
  "tick (snd (awardAchievement d u a)) = Suc (tick d)"
  by (simp add: awardAchievement_def)

text \<open>
  A loop that ran to its end met no failing statement: each statement it issued has a
  number that is not among the faults.
\<close>

lemma award_each_no_fault:
  "fst (award_each d u earned stats as acc) = Inr xs \<Longrightarrow> tick d \<le> k \<Longrightarrow>
     k < tick (snd (award_each d u earned stats as acc)) \<Longrightarrow> k \<notin> set (faults d)"
proof (induction as arbitrary: d acc)
  case Nil
  then show ?case by simp
next
  case (Cons a rest)
  show ?case
  proof (cases "a_id a \<notin> set earned \<and> checkAchievementCriteria a stats")
    case False
    then have eq: "award_each d u earned stats (a # rest) acc
                     = award_each d u earned stats rest acc"
      by (cases "a_id a \<in> set earned") simp_all
    from Cons.prems(1,3) have
      "fst (award_each d u earned stats rest acc) = Inr xs"
      "k < tick (snd (award_each d u earned stats rest acc))"
      unfolding eq by simp_all
    from Cons.IH [OF this(1) Cons.prems(2) this(2)] show ?thesis .
  next
    case True
    let ?d1 = "snd (awardAchievement d u (a_id a))"
    have nf: "\<not> failing d"
    proof
      assume "failing d"
      with True have "fst (award_each d u earned stats (a # rest) acc) = Inl StoreError"
        by (simp add: awardAchievement_def)
      with Cons.prems(1) show False by simp
    qed
    with True have eq: "award_each d u earned stats (a # rest) acc
                      = award_each ?d1 u earned stats rest (acc @ [a])"
      by (simp add: awardAchievement_def)
    show ?thesis
    proof (cases "k = tick d")
      case True
      with nf show ?thesis by (simp add: failing_def)
    next
      case False
      with Cons.prems(2) have le: "tick ?d1 \<le> k" by simp
      from Cons.prems eq have
        "fst (award_each ?d1 u earned stats rest (acc @ [a])) = Inr xs"
        "k < tick (snd (award_each ?d1 u earned stats rest (acc @ [a])))"
        by simp_all
      from Cons.IH [OF this(1) le this(2)] show ?thesis by simp
    qed
  qed
qed

lemma check_and_award_no_fault:
  assumes "fst (check_and_award d u) = Inr xs" and "tick d \<le> k"
    and "k < tick (snd (check_and_award d u))"
  shows "k \<notin> set (faults d)"
proof -
  let ?d6 = "issued (issued (issued (issued (issued (issued d)))))"
  let ?e = "map a_id (filter (\<lambda>a. holds d u (a_id a)) (achievements d))"
  let ?all = "sort_key (\<lambda>a. (a_category a, a_points_required a)) (achievements d)"
  from assms(1) have nf: "\<not> failing d" "\<not> failing (issued d)"
    "\<not> failing (issued (issued d))" "\<not> failing (issued (issued (issued d)))"
    "\<not> failing (issued (issued (issued (issued d))))"
    "\<not> failing (issued (issued (issued (issued (issued d)))))"
    by (simp_all add: check_and_award_eq split: if_splits)
  then have eq: "check_and_award d u
                   = award_each ?d6 u ?e (stats_of (issued d) u) ?all []"
    by (simp add: check_and_award_eq)
  show ?thesis
  proof (cases "k < tick d + 6")
    case True
    with assms(2) have "k = tick d \<or> k = Suc (tick d) \<or> k = Suc (Suc (tick d))
       \<or> k = Suc (Suc (Suc (tick d))) \<or> k = Suc (Suc (Suc (Suc (tick d))))
       \<or> k = Suc (Suc (Suc (Suc (Suc (tick d)))))"
      by arith
    with nf show ?thesis by (auto simp: failing_def)
  next
    case False
    then have le: "tick ?d6 \<le> k" by simp
    from assms eq have
      "fst (award_each ?d6 u ?e (stats_of (issued d) u) ?all []) = Inr xs"
      "k < tick (snd (award_each ?d6 u ?e (stats_of (issued d) u) ?all []))"
      by simp_all
    from award_each_no_fault [OF this(1) le this(2)] show ?thesis by simp
  qed
qed

lemma checkAndAwardAchievements_snd:
  "snd (checkAndAwardAchievements d u) = snd (check_and_award d u)"
  by (simp add: checkAndAwardAchievements_def case_prod_beta split: sum.split)

lemma failed_check_is_empty:
  assumes "tick d \<le> k" and "k < tick (snd (checkAndAwardAchievements d u))"
    and "k \<in> set (faults d)"
  shows "fst (checkAndAwardAchievements d u) = []"
proof (cases "fst (check_and_award d u)")
  case (Inl e)
  then show ?thesis
    by (simp add: checkAndAwardAchievements_def case_prod_beta)
next
  case (Inr xs)
  from assms(2) have "k < tick (snd (check_and_award d u))"
    by (simp add: checkAndAwardAchievements_snd)
  from check_and_award_no_fault [OF Inr assms(1) this] assms(3) show ?thesis by simp
qed

text \<open>
  \<open>checkAndAwardAchievements\<close> returns a list in every case, and the empty list
  whenever one of the statements it issued failed: the query for the grants, one of the
  four statistics queries, the catalogue query, or an insert of a grant.  The handler
  of the progress route then answers with success, the progress result, the points and
  \<open>newAchievements = []\<close>, provided the progress update and the crediting of points
  before the check resolved.
\<close>

theorem achievement_failure_swallowed:
  "(tick d \<le> k \<and> k < tick (snd (checkAndAwardAchievements d userId)) \<and> k \<in> set (faults d)
      \<longrightarrow> fst (checkAndAwardAchievements d userId) = [])
   \<and> (progress_body_valid body
      \<and> fst (updateProgress d userId (pb_subject body) (pb_topic body)
               (pb_completion_percentage body)
               (case pb_score body of None \<Rightarrow> 0 | Some s \<Rightarrow> s)
               (case pb_time_spent body of None \<Rightarrow> 0 | Some t \<Rightarrow> t)) = Inr res
      \<and> credit_points today yesterday
               (snd (updateProgress d userId (pb_subject body) (pb_topic body)
                      (pb_completion_percentage body)
                      (case pb_score body of None \<Rightarrow> 0 | Some s \<Rightarrow> s)
                      (case pb_time_spent body of None \<Rightarrow> 0 | Some t \<Rightarrow> t)))
               userId
               (progress_points res (pb_completion_percentage body)
                  (case pb_score body of None \<Rightarrow> 0 | Some s \<Rightarrow> s))
               (pb_subject body) = (Inr x, d2)
      \<and> tick d2 \<le> k \<and> k < tick (snd (checkAndAwardAchievements d2 userId))
      \<and> k \<in> set (faults d2)
      \<longrightarrow> fst (progress_handler today yesterday d userId body) =
            ProgressUpdated
              \<lparr>rp_progress = res,
               rp_pointsEarned = progress_points res (pb_completion_percentage body)
                                   (case pb_score body of None \<Rightarrow> 0 | Some s \<Rightarrow> s),
               rp_newAchievements = []\<rparr>)"
proof (intro conjI impI)
  assume "tick d \<le> k \<and> k < tick (snd (checkAndAwardAchievements d userId))
          \<and> k \<in> set (faults d)"
  then show "fst (checkAndAwardAchievements d userId) = []"
    using failed_check_is_empty [of d k userId] by simp
next
  let ?sc = "case pb_score body of None \<Rightarrow> 0 | Some s \<Rightarrow> s"
  let ?ts = "case pb_time_spent body of None \<Rightarrow> 0 | Some t \<Rightarrow> t"
  let ?p = "updateProgress d userId (pb_subject body) (pb_topic body)
              (pb_completion_percentage body) ?sc ?ts"
  let ?pts = "progress_points res (pb_completion_percentage body) ?sc"
  assume a: "progress_body_valid body \<and> fst ?p = Inr res
      \<and> credit_points today yesterday (snd ?p) userId ?pts (pb_subject body) = (Inr x, d2)
      \<and> tick d2 \<le> k \<and> k < tick (snd (checkAndAwardAchievements d2 userId))
      \<and> k \<in> set (faults d2)"
  then have e: "fst (checkAndAwardAchievements d2 userId) = []"
    using failed_check_is_empty [of d2 k userId] by simp
  from a have q: "fst (credit_points today yesterday (snd ?p) userId ?pts (pb_subject body)) = Inr x"
    "snd (credit_points today yesterday (snd ?p) userId ?pts (pb_subject body)) = d2"
    by simp_all
  from a e q show "fst (progress_handler today yesterday d userId body) =
            ProgressUpdated
              \<lparr>rp_progress = res, rp_pointsEarned = ?pts, rp_newAchievements = []\<rparr>"
    by (simp add: progress_handler_eq Let_def)
qed

lemmas route_defs =
  progress_handler_eq progress_body_valid_def body_first_100_def subjects_def
  updateProgress_def db_faulty_def db_student_def db0_def failing_def find_progress_def
  same_topic_def Let_def issued_def progress_points_def js_div_def round64_Ints
  credit_points_def updateUserPoints.simps write_points_def new_streak_def
  checkAndAwardAchievements_def check_and_award_def getUserAchievements_def
  getUserStats_def getAllAchievements_def catalogue_def sorted_catalogue holds_def
  stats_of_def find_points_def checkAchievementCriteria_def completed_in_def
  awardAchievement_def

lemma first_100_without_fault:
  "fst (progress_handler 20000 19999 (db_student 50 1 (Some 20000)) 1 body_first_100) =
     ProgressUpdated
       \<lparr>rp_progress = \<lparr>pg_created = True, pg_updated = False,
                        pg_completion_percentage = 100, pg_score = 90, pg_attempts = 1\<rparr>,
        rp_pointsEarned = 30,
        rp_newAchievements =
          [\<lparr>a_id = 1, a_name = ''First Steps'', a_category = Some ''progress'',
            a_points_required = 10\<rparr>]\<rparr>"
  by (simp add: route_defs)

lemma first_100_stats_fault:
  "fst (progress_handler 20000 19999 (db_faulty 6) 1 body_first_100) =
     ProgressUpdated
       \<lparr>rp_progress = \<lparr>pg_created = True, pg_updated = False,
                        pg_completion_percentage = 100, pg_score = 90, pg_attempts = 1\<rparr>,
        rp_pointsEarned = 30, rp_newAchievements = []\<rparr>"
  by (simp add: route_defs)

lemma first_100_insert_fault:
  "fst (progress_handler 20000 19999 (db_faulty 10) 1 body_first_100) =
     ProgressUpdated
       \<lparr>rp_progress = \<lparr>pg_created = True, pg_updated = False,
                        pg_completion_percentage = 100, pg_score = 90, pg_attempts = 1\<rparr>,
        rp_pointsEarned = 30, rp_newAchievements = []\<rparr>"
  by (simp add: route_defs)

theorem achievement_failure_swallowed_witness:
  "tick (db_faulty 1) \<le> 1
   \<and> 1 < tick (snd (checkAndAwardAchievements (db_faulty 1) 1))
   \<and> 1 \<in> set (faults (db_faulty 1))
   \<and> fst (checkAndAwardAchievements (db_faulty 1) 1) = []
   \<and> progress_body_valid body_first_100
   \<and> fst (updateProgress (db_faulty 6) 1 ''math'' ''Algebra'' 100 90 60) =
       Inr \<lparr>pg_created = True, pg_updated = False, pg_completion_percentage = 100,
            pg_score = 90, pg_attempts = 1\<rparr>
   \<and> fst (credit_points 20000 19999
            (snd (updateProgress (db_faulty 6) 1 ''math'' ''Algebra'' 100 90 60)) 1 30
            ''math'') = Inr ()
   \<and> tick (snd (credit_points 20000 19999
            (snd (updateProgress (db_faulty 6) 1 ''math'' ''Algebra'' 100 90 60)) 1 30
            ''math'')) \<le> 6
   \<and> 6 < tick (snd (checkAndAwardAchievements
                     (snd (credit_points 20000 19999
                        (snd (updateProgress (db_faulty 6) 1 ''math'' ''Algebra'' 100 90 60))
                        1 30 ''math'')) 1))
   \<and> 6 \<in> set (faults (snd (credit_points 20000 19999
            (snd (updateProgress (db_faulty 6) 1 ''math'' ''Algebra'' 100 90 60)) 1 30
            ''math'')))
   \<and> fst (progress_handler 20000 19999 (db_faulty 6) 1 body_first_100) =
       ProgressUpdated
         \<lparr>rp_progress = \<lparr>pg_created = True, pg_updated = False,
                          pg_completion_percentage = 100, pg_score = 90, pg_attempts = 1\<rparr>,
          rp_pointsEarned = 30, rp_newAchievements = []\<rparr>"
proof -
  let ?res = "\<lparr>pg_created = True, pg_updated = False, pg_completion_percentage = 100,
                pg_score = 90, pg_attempts = 1\<rparr>"
  let ?d2 = "snd (credit_points 20000 19999
            (snd (updateProgress (db_faulty 6) 1 ''math'' ''Algebra'' 100 90 60)) 1 30
            ''math'')"
  have b: "pb_subject body_first_100 = ''math''" "pb_topic body_first_100 = ''Algebra''"
    "pb_completion_percentage body_first_100 = 100"
    "(case pb_score body_first_100 of None \<Rightarrow> 0 | Some s \<Rightarrow> s) = 90"
    "(case pb_time_spent body_first_100 of None \<Rightarrow> 0 | Some t \<Rightarrow> t) = 60"
    by (simp_all add: body_first_100_def)
  have p: "progress_points ?res 100 90 = 30"
    by (simp add: progress_points_def js_div_def round64_Ints)
  have g: "tick (db_faulty 1) \<le> 1 \<and> 1 < tick (snd (checkAndAwardAchievements (db_faulty 1) 1))
           \<and> 1 \<in> set (faults (db_faulty 1))"
    by (simp add: route_defs)
  have h2: "progress_body_valid body_first_100"
    by (simp add: route_defs)
  have h3: "fst (updateProgress (db_faulty 6) 1 ''math'' ''Algebra'' 100 90 60) = Inr ?res"
    by (simp add: route_defs)
  have h4': "fst (credit_points 20000 19999
            (snd (updateProgress (db_faulty 6) 1 ''math'' ''Algebra'' 100 90 60)) 1 30
            ''math'') = Inr ()"
    by (simp add: route_defs)
  then have h4: "credit_points 20000 19999
            (snd (updateProgress (db_faulty 6) 1 ''math'' ''Algebra'' 100 90 60)) 1 30
            ''math'' = (Inr (), ?d2)"
    by (simp add: prod_eq_iff)
  have h5: "tick ?d2 \<le> 6 \<and> 6 < tick (snd (checkAndAwardAchievements ?d2 1))
            \<and> 6 \<in> set (faults ?d2)"
    by (simp add: route_defs)
  note t1 = achievement_failure_swallowed
    [where d = "db_faulty 1" and userId = 1 and k = 1, THEN conjunct1, rule_format]
  note t2 = achievement_failure_swallowed
    [where d = "db_faulty 6" and userId = 1 and k = 6 and body = body_first_100
       and res = ?res and x = "()" and today = 20000 and yesterday = 19999
       and ?d2.0 = ?d2,
     THEN conjunct2, rule_format, unfolded b p]
  have c1: "fst (checkAndAwardAchievements (db_faulty 1) 1) = []"
    using g by (rule t1)
  have c2: "fst (progress_handler 20000 19999 (db_faulty 6) 1 body_first_100) =
       ProgressUpdated \<lparr>rp_progress = ?res, rp_pointsEarned = 30, rp_newAchievements = []\<rparr>"
    using h2 h3 h4 h5 by (intro t2 conjI) simp_all
  from g c1 h2 h3 h4' h5 c2 show ?thesis by (intro conjI) simp_all
qed

text \<open>
  The answer to a request whose achievement check failed is the answer the same request
  gets from a store without faults in which the student already holds the achievement.
\<close>

lemma failure_looks_like_nothing_new:
  "fst (progress_handler 20000 19999 (db_faulty 6) 1 body_first_100) =
   fst (progress_handler 20000 19999
          ((db_student 50 1 (Some 20000))
             \<lparr>user_achievements := [\<lparr>ua_user_id = 1, ua_achievement_id = 1\<rparr>]\<rparr>)
          1 body_first_100)"
  by (simp add: route_defs)

section \<open>The achievement check behind the route\<close>

text \<open>
  C10 fails on the route.  Its first half holds of \<open>checkAndAwardAchievements\<close>, as
  shown above.  Its second half needs a request that reaches the handler, and none does:
  the role check in front of the handler throws, so every request to the route, whatever
  the store, the student and the body, is answered with the 500 of the error middleware,
  no statement is issued, and no request is answered with success.  For the student who
  completes Algebra in the store whose statistics query fails, the handler alone answers
  with success and no new achievements, and the route answers with status 500.
\<close>

theorem failed_check_not_reported:
  "post_progress today yesterday d studentId role body = (ProgressServerError, d)
   \<and> fst (post_progress today yesterday d studentId role body) \<noteq> ProgressUpdated rep
   \<and> tick (snd (post_progress today yesterday d studentId role body)) = tick d
   \<and> fst (progress_handler 20000 19999 (db_faulty 6) 1 body_first_100) =
       ProgressUpdated
         \<lparr>rp_progress = \<lparr>pg_created = True, pg_updated = False,
                          pg_completion_percentage = 100, pg_score = 90, pg_attempts = 1\<rparr>,
          rp_pointsEarned = 30, rp_newAchievements = []\<rparr>
   \<and> fst (post_progress 20000 19999 (db_faulty 6) 1 ''student'' body_first_100)
       = ProgressServerError"
proof (intro conjI)
  show "post_progress today yesterday d studentId role body = (ProgressServerError, d)"
    by (rule post_progress_eq)
  show "fst (post_progress today yesterday d studentId role body) \<noteq> ProgressUpdated rep"
    by (simp add: post_progress_eq)
  show "tick (snd (post_progress today yesterday d studentId role body)) = tick d"
    by (simp add: post_progress_eq)
  show "fst (progress_handler 20000 19999 (db_faulty 6) 1 body_first_100) =
       ProgressUpdated
         \<lparr>rp_progress = \<lparr>pg_created = True, pg_updated = False,
                          pg_completion_percentage = 100, pg_score = 90, pg_attempts = 1\<rparr>,
          rp_pointsEarned = 30, rp_newAchievements = []\<rparr>"
    by (rule first_100_stats_fault)
  show "fst (post_progress 20000 19999 (db_faulty 6) 1 ''student'' body_first_100)
          = ProgressServerError"
    by (simp add: post_progress_eq)
qed

section \<open>Game scores and the points account\<close>

text \<open>The score handler changes no table but \<open>game_scores\<close>.\<close>

lemma submit_score_tables:
  "user_points (snd (submit_score d userId subject gameId body)) = user_points d
   \<and> user_achievements (snd (submit_score d userId subject gameId body))
       = user_achievements d
   \<and> student_progress (snd (submit_score d userId subject gameId body))
       = student_progress d"
  by (simp add: submit_score_def saveGameScore_def getUserGameScores_def Let_def)

text \<open>
  C2 fails on the handler.  Student 1 has played four different games and submits a
  score of 95 in 120 seconds for a fifth: the reply reports 44 points, the account still
  has 0 points, the statistics now satisfy the rule of "Game Master" (achievement 2), and
  the student has no grant.
\<close>

theorem game_points_not_credited:
  "points_of (fst (submit_score db_games 1 ''physics'' ''circuit-builder'' body_95_120)) = Some 44
   \<and> map_option up_total_points (find_points db_games 1) = Some 0
   \<and> map_option up_total_points
         (find_points (snd (submit_score db_games 1 ''physics'' ''circuit-builder'' body_95_120)) 1)
       = Some 0
   \<and> checkAchievementCriteria
         \<lparr>a_id = 2, a_name = ''Game Master'', a_category = Some ''gaming'',
           a_points_required = 100\<rparr>
         (stats_of (snd (submit_score db_games 1 ''physics'' ''circuit-builder'' body_95_120)) 1)
   \<and> user_achievements (snd (submit_score db_games 1 ''physics'' ''circuit-builder'' body_95_120))
       = []"
  by (simp add: submit_score_def saveGameScore_def getUserGameScores_def Let_def
      points_of_def calc_points_def score_body_valid_def body_95_120_def subjects_def
      failing_def db_games_def db_student_def db0_def played_def find_points_def
      checkAchievementCriteria_def stats_of_def issued_def)

section \<open>Client: the offline queue\<close>

text \<open>
  An update submitted offline: one item more in the queue, the acknowledgement, and no
  fetch, as long as IndexedDB takes the item.
\<close>

theorem offline_update_queued:
  assumes "\<not> navigator_onLine c" and "idb_ok"
  shows "fst (api_updateProgress c idb_ok answer progressData) = Inr SavedOffline
       \<and> offline_progress (snd (api_updateProgress c idb_ok answer progressData))
           = offline_progress c @
               [\<lparr>oi_id = next_key c, oi_progressData = progressData,
                 oi_token = authToken c\<rparr>]
       \<and> length (offline_progress (snd (api_updateProgress c idb_ok answer progressData)))
           = Suc (length (offline_progress c))
       \<and> fetches (snd (api_updateProgress c idb_ok answer progressData)) = fetches c"
  using assms by (simp add: api_updateProgress_def storeOfflineProgress_def)

theorem offline_update_queued_witness:
  "\<not> navigator_onLine client0
   \<and> fst (api_updateProgress client0 True Fetch_rejected body_client) = Inr SavedOffline
   \<and> offline_progress (snd (api_updateProgress client0 True Fetch_rejected body_client))
       = [\<lparr>oi_id = 1, oi_progressData = body_client, oi_token = Some ''token''\<rparr>]
   \<and> fetches (snd (api_updateProgress client0 True Fetch_rejected body_client)) = []"
proof -
  have h: "\<not> navigator_onLine client0" by (simp add: client0_def)
  from offline_update_queued [OF h TrueI, of Fetch_rejected body_client] h
  show ?thesis by (simp add: client0_def)
qed

text \<open>
  A sweep that resumes ends in its \<open>catch\<close> block and leaves the page as it was.
\<close>

lemma resume_fst [simp]: "fst (resume c s idb_ok) = c"
  by (cases s) (simp add: resume_def)

lemma step_queue:
  "offline_progress (step c e) = offline_progress c \<and> fetches (step c e) = fetches c"
  by (cases e)
     (simp_all add: syncOfflineData_def syncPendingData_def handleOnline_def
        handleOffline_def case_prod_beta)

text \<open>
  C9 fails in its second half.  Whatever happens to the page, once or many times (the
  \<open>online\<close> and \<open>offline\<close> events, the timer, explicit calls of
  \<open>syncOfflineData\<close>, sweeps resuming), the queue keeps every item and no request is
  sent: a sweep throws before it replays its first item.  A queued update is never
  delivered and never removed.
\<close>

theorem queue_never_replayed:
  "offline_progress (run c events) = offline_progress c
   \<and> fetches (run c events) = fetches c"
proof (induction events arbitrary: c)
  case Nil
  show ?case by (simp add: run_def)
next
  case (Cons e events)
  have "run c (e # events) = run (step c e) events" by (simp add: run_def)
  with Cons [of "step c e"] step_queue [of c e] show ?case by simp
qed

text \<open>
  The sweep of one queued update on a page that is online: it starts, IndexedDB opens,
  and the sweep ends.  The update is still queued and \<open>fetch\<close> was not called.
\<close>

lemma sweep_of_queued_update:
  "offline_progress (run client_queued [Sync, Resume 0 True])
     = [\<lparr>oi_id = 1, oi_progressData = body_client, oi_token = Some ''token''\<rparr>]
   \<and> fetches (run client_queued [Sync, Resume 0 True]) = []
   \<and> sweeps (run client_queued [Sync]) = [Opening]
   \<and> sweeps (run client_queued [Sync, Resume 0 True]) = []
   \<and> snd (resume (run client_queued [Sync]) Opening True) = NotIterable"
  by (simp add: run_def client_queued_def syncOfflineData_def resume_def drop_nth_def)

section \<open>Client: sweeps in progress\<close>

lemma syncOfflineData_sweeps:
  "sweeps (syncOfflineData c) =
     (if navigator_onLine c then sweeps c @ [Opening] else sweeps c)"
  by (simp add: syncOfflineData_def)

text \<open>
  Explicit calls while \<open>navigator.onLine\<close> is true, one after the other: each adds a
  sweep.
\<close>

lemma run_Sync_replicate:
  "navigator_onLine c \<Longrightarrow>
     sweeps (run c (replicate n Sync)) = sweeps c @ replicate n Opening
     \<and> navigator_onLine (run c (replicate n Sync))"
proof (induction n arbitrary: c)
  case 0
  then show ?case by (simp add: run_def)
next
  case (Suc n)
  have s: "run c (replicate (Suc n) Sync) = run (step c Sync) (replicate n Sync)"
    by (simp add: run_def)
  from Suc.prems have o: "navigator_onLine (step c Sync)"
    by (simp add: syncOfflineData_def)
  from Suc.prems have w: "sweeps (step c Sync) = sweeps c @ [Opening]"
    by (simp add: syncOfflineData_def)
  from Suc.IH [OF o] s w show ?case
    by (simp add: replicate_app_Cons_same)
qed

text \<open>
  C8, as amended.  No trigger looks at the sweeps in progress: an explicit call starts a
  sweep whenever \<open>navigator.onLine\<close> is true, the timer whenever the offline manager
  believes to be online as well, and the \<open>online\<close> event starts two, one from each of
  its listeners; \<open>n\<close> calls in a row leave \<open>n\<close> more sweeps in progress.
\<close>

theorem sweeps_not_single_flight:
  "(navigator_onLine c \<longrightarrow> sweeps (step c Sync) = sweeps c @ [Opening])
   \<and> (navigator_onLine c \<and> isOnline c \<longrightarrow> sweeps (step c Timer) = sweeps c @ [Opening])
   \<and> sweeps (step c Online) = sweeps c @ [Opening, Opening]
   \<and> (navigator_onLine c \<longrightarrow>
        sweeps (run c (replicate n Sync)) = sweeps c @ replicate n Opening)"
proof (intro conjI impI)
  assume "navigator_onLine c"
  then show "sweeps (step c Sync) = sweeps c @ [Opening]"
    by (simp add: syncOfflineData_def)
next
  assume "navigator_onLine c \<and> isOnline c"
  then show "sweeps (step c Timer) = sweeps c @ [Opening]"
    by (simp add: syncOfflineData_def syncPendingData_def)
next
  show "sweeps (step c Online) = sweeps c @ [Opening, Opening]"
    by (simp add: syncOfflineData_def syncPendingData_def handleOnline_def)
next
  assume "navigator_onLine c"
  then show "sweeps (run c (replicate n Sync)) = sweeps c @ replicate n Opening"
    using run_Sync_replicate [of c n] by simp
qed

theorem sweeps_not_single_flight_witness:
  "navigator_onLine (step client0 Online) \<and> isOnline (step client0 Online)
   \<and> sweeps (step client0 Online) = [Opening, Opening]
   \<and> sweeps (step (step client0 Online) Sync) = [Opening, Opening, Opening]
   \<and> sweeps (step (step client0 Online) Timer) = [Opening, Opening, Opening]
   \<and> sweeps (run (step client0 Online) (replicate 3 Sync))
       = [Opening, Opening, Opening, Opening, Opening]"
proof -
  have h: "navigator_onLine (step client0 Online)" "isOnline (step client0 Online)"
    by (simp_all add: client0_def syncOfflineData_def syncPendingData_def handleOnline_def)
  have e: "sweeps client0 = []" by (simp add: client0_def)
  have r: "replicate 3 Opening = [Opening, Opening, Opening]"
    by (simp add: numeral_3_eq_3)
  from sweeps_not_single_flight [of "step client0 Online" 3]
    sweeps_not_single_flight [of client0 3] h e r
  show ?thesis by simp
qed

text \<open>
  C8 as stated fails: after the \<open>online\<close> event of a page that was offline, two sweeps
  are in progress.
\<close>

theorem two_sweeps_after_online:
  "\<not> length (sweeps (run client0 [Online])) \<le> 1"
  by (simp add: run_def client0_def syncOfflineData_def syncPendingData_def
      handleOnline_def)

section \<open>Grants and the handler of the progress route\<close>

text \<open>
  Nothing but \<open>awardAchievement\<close> writes to \<open>user_achievements\<close>, so the handler of
  the progress route as a whole keeps the table free of duplicates.
\<close>

lemma write_points_grants [simp]:
  "user_achievements (snd (write_points today yesterday d u p s cur)) = user_achievements d"
  by (simp add: write_points_def Let_def)

lemma initializeUserPoints_grants [simp]:
  "user_achievements (snd (initializeUserPoints today d u)) = user_achievements d"
  by (simp add: initializeUserPoints_def split: option.split)

lemma updateUserPoints_grants [simp]:
  "user_achievements (snd (updateUserPoints today yesterday d u p s)) = user_achievements d"
proof (cases "failing d")
  case True
  then show ?thesis by (subst updateUserPoints.simps) simp
next
  case nf: False
  show ?thesis
  proof (cases "find_points d u")
    case (Some cur)
    with nf show ?thesis by (simp add: updateUserPoints_existing)
  next
    case None
    let ?e = "snd (initializeUserPoints today (issued d) u)"
    show ?thesis
    proof (cases "failing (issued d)")
      case True
      with None nf show ?thesis by (simp add: updateUserPoints_missing)
    next
      case False
      with None have f: "find_points ?e u = Some (fresh_points today u)"
        by (simp add: initializeUserPoints_fresh)
      from None nf False have "updateUserPoints today yesterday d u p s = updateUserPoints today yesterday ?e u p s"
        by (simp add: updateUserPoints_missing)
      then show ?thesis
        by (simp add: updateUserPoints_existing [OF f])
    qed
  qed
qed

lemma checkAndAwardAchievements_distinct:
  assumes "distinct (user_achievements d)"
  shows "distinct (user_achievements (snd (checkAndAwardAchievements d u)))"
proof -
  have "distinct (user_achievements (snd (check_and_award d u)))"
    using assms award_each_distinct
      [of "issued (issued (issued (issued (issued (issued d)))))" u
          "map a_id (filter (\<lambda>a. holds d u (a_id a)) (achievements d))"
          "stats_of (issued d) u"
          "sort_key (\<lambda>a. (a_category a, a_points_required a)) (achievements d)" "[]"]
    by (simp add: check_and_award_eq)
  then show ?thesis by (simp add: checkAndAwardAchievements_snd)
qed

lemma progress_handler_distinct:
  assumes "distinct (user_achievements d)"
  shows "distinct (user_achievements (snd (progress_handler today yesterday d u body)))"
proof -
  have c: "user_achievements (snd (credit_points today yesterday e u p s)) = user_achievements e"
    for e p s
    by (simp add: credit_points_snd)
  show ?thesis
    using assms
    by (simp add: progress_handler_eq Let_def c checkAndAwardAchievements_distinct
        split: sum.split)
qed

end
